theory Spec2Isabelle
  imports Complex_Main
begin

section \<open>Numbers and configuration objects\<close>

text \<open>
  The program computes with JavaScript numbers.  The embedding reads them as mathematical
  reals: rounding of doubles is not modelled, and a numeric property of a configuration
  holds a finite number or is absent.  The one property that the code itself tests for
  the non-finite values is \<open>partnerMultiplier\<close>, which is read through
  \<^verbatim>\<open>Number(config.partnerMultiplier)\<close> only; the type \<open>jsnum\<close> of a coerced number keeps
  \<open>NaN\<close> and the two infinities apart from the finite values.
\<close>

datatype jsnum = Fin real | NaN | PosInf | NegInf

text \<open>
  \<^verbatim>\<open>Number(v)\<close> on a property that is absent (\<open>None\<close>, JS \<^verbatim>\<open>undefined\<close>) is \<open>NaN\<close>; a property
  is represented by the number it coerces to, so a value that is no number at all is \<open>NaN\<close>
  as well.
\<close>

definition Number :: "jsnum option \<Rightarrow> jsnum" where
  "Number v = (case v of None \<Rightarrow> NaN | Some n \<Rightarrow> n)"

definition isFinite :: "jsnum \<Rightarrow> bool" where
  "isFinite n = (case n of Fin x \<Rightarrow> True | NaN \<Rightarrow> False | PosInf \<Rightarrow> False | NegInf \<Rightarrow> False)"

text \<open>The comparison \<^verbatim>\<open>raw > 1\<close> on a JS number: false for \<open>NaN\<close>.\<close>

definition greaterThanOne :: "jsnum \<Rightarrow> bool" where
  "greaterThanOne n = (case n of Fin x \<Rightarrow> 1 < x | NaN \<Rightarrow> False | PosInf \<Rightarrow> True | NegInf \<Rightarrow> False)"

text \<open>
  A regime configuration is a plain JS object; every calculator reads the properties it
  needs and falls back to a default when a property is absent.  One record with every
  property optional covers the four regimes.
\<close>

record config =
  deemedReturn :: "real option"
  taxRate :: "real option"
  exemption :: "real option"
  debtThreshold :: "real option"
  savingsRate :: "real option"
  investRate :: "real option"
  debtRate :: "real option"
  allocSavings :: "real option"
  allocInvest :: "real option"
  allocDebt :: "real option"
  freeReturn :: "real option"
  lossThreshold :: "real option"
  partnerMultiplier :: "jsnum option"

text \<open>A destructuring default \<^verbatim>\<open>const { f = d } = config\<close>.\<close>

definition orDefault :: "real option \<Rightarrow> real \<Rightarrow> real" where
  "orDefault v d = (case v of None \<Rightarrow> d | Some x \<Rightarrow> x)"

text \<open>
  \<^verbatim>\<open>Number(v) || d\<close> on a property holding a finite number or nothing: an absent property
  coerces to \<open>NaN\<close>, which is falsy, and so is \<open>0\<close>.
\<close>

definition numberOr :: "real option \<Rightarrow> real \<Rightarrow> real" where
  "numberOr v d = (case v of None \<Rightarrow> d | Some x \<Rightarrow> if x = 0 then d else x)"

section \<open>Regime calculators (taxSystems.js)\<close>

definition getPartnerMultiplier :: "config \<Rightarrow> real" where
  "getPartnerMultiplier c =
     (let raw = Number (partnerMultiplier c)
      in if isFinite raw \<and> greaterThanOne raw then 2 else 1)"

record shares =
  savingsShare :: real
  investShare :: real
  debtShare :: real

definition normalizeAllocations :: "real \<Rightarrow> real \<Rightarrow> real \<Rightarrow> shares" where
  "normalizeAllocations aSavings aInvest aDebt =
     (let savings = max 0 (numberOr (Some aSavings) 0);
          invest = max 0 (numberOr (Some aInvest) 0);
          debt = max 0 (numberOr (Some aDebt) 0);
          total = savings + invest + debt
      in if total \<le> 0
         then \<lparr>savingsShare = 0, investShare = 0, debtShare = 0\<rparr>
         else \<lparr>savingsShare = savings / total, investShare = invest / total,
               debtShare = debt / total\<rparr>)"

definition calcNoTax :: real where
  "calcNoTax = 0"

definition calcOldSystem :: "real \<Rightarrow> real \<Rightarrow> config \<Rightarrow> real" where
  "calcOldSystem portfolioValue actualReturn c =
     (let dReturn = orDefault (deemedReturn c) 4;
          tRate = orDefault (taxRate c) 30;
          exempt = orDefault (exemption c) 21139;
          pm = getPartnerMultiplier c;
          effectiveExemption = exempt * pm;
          taxableWealth = max 0 (portfolioValue - effectiveExemption);
          deemedIncome = taxableWealth * (dReturn / 100);
          tax = deemedIncome * (tRate / 100)
      in max 0 tax)"

definition calcCurrentSystem :: "real \<Rightarrow> real \<Rightarrow> config \<Rightarrow> real" where
  "calcCurrentSystem portfolioValue actualReturn c =
     (let tRate = orDefault (taxRate c) 36;
          exempt = orDefault (exemption c) 59357;
          dThreshold = orDefault (debtThreshold c) 3800;
          sRate = orDefault (savingsRate c) (128 / 100);
          iRate = orDefault (investRate c) 6;
          dRate = orDefault (debtRate c) (27 / 10);
          aSavings = orDefault (allocSavings c) 0;
          aInvest = orDefault (allocInvest c) 100;
          aDebt = orDefault (allocDebt c) 0;
          totalWealth = max 0 portfolioValue
      in if totalWealth \<le> 0 then 0 else
         (let pm = getPartnerMultiplier c;
              effectiveExemption = exempt * pm;
              effectiveDebtThreshold = dThreshold * pm;
              sh = normalizeAllocations aSavings aInvest aDebt
          in if savingsShare sh = 0 \<and> investShare sh = 0 \<and> debtShare sh = 0 then 0 else
             (let savingsPortion = totalWealth * savingsShare sh;
                  investPortion = totalWealth * investShare sh;
                  debtPortion = totalWealth * debtShare sh;
                  deductibleDebt = max 0 (debtPortion - effectiveDebtThreshold);
                  belastbaarRendement =
                    savingsPortion * (sRate / 100) + investPortion * (iRate / 100)
                    - deductibleDebt * (dRate / 100)
              in if belastbaarRendement \<le> 0 then 0 else
                 (let rendementsgrondslag = savingsPortion + investPortion - deductibleDebt
                  in if rendementsgrondslag \<le> 0 then 0 else
                     (let grondslagSparenBeleggen =
                            max 0 (rendementsgrondslag - effectiveExemption)
                      in if grondslagSparenBeleggen \<le> 0 then 0 else
                         (let aandeelInRendementsgrondslag =
                                min 1 (grondslagSparenBeleggen / rendementsgrondslag);
                              voordeelUitSparenBeleggen =
                                belastbaarRendement * aandeelInRendementsgrondslag;
                              tax = voordeelUitSparenBeleggen * (tRate / 100)
                          in max 0 tax))))))"

definition calcFutureIncome :: "real \<Rightarrow> config \<Rightarrow> real" where
  "calcFutureIncome actualReturn c =
     (let fReturn = orDefault (freeReturn c) 1800
      in if actualReturn \<le> 0 then actualReturn else
         (let pm = getPartnerMultiplier c;
              effectiveFreeReturn = fReturn * pm
          in max 0 (actualReturn - effectiveFreeReturn)))"

definition calcFutureSystem :: "real \<Rightarrow> real \<Rightarrow> config \<Rightarrow> real" where
  "calcFutureSystem portfolioValue taxableIncome c =
     (let tRate = orDefault (taxRate c) 36;
          tax = max 0 taxableIncome * (tRate / 100)
      in max 0 tax)"

text \<open>The object that holds one configuration per regime.\<close>

record configs =
  noTax :: config
  old :: config
  current :: config
  future :: config

text \<open>
  An object without any property, and \<open>getDefaultConfigs\<close>.  Its \<^verbatim>\<open>oldMethod\<close> entry is
  never read by \<open>runSimulation\<close> and is left out.
\<close>

definition emptyConfig :: config where
  "emptyConfig = \<lparr>deemedReturn = None, taxRate = None, exemption = None, debtThreshold = None,
     savingsRate = None, investRate = None, debtRate = None, allocSavings = None,
     allocInvest = None, allocDebt = None, freeReturn = None, lossThreshold = None,
     partnerMultiplier = None\<rparr>"

definition getDefaultConfigs :: configs where
  "getDefaultConfigs =
     \<lparr>noTax = emptyConfig,
      old = emptyConfig\<lparr>deemedReturn := Some 4, taxRate := Some 30, exemption := Some 21139,
              partnerMultiplier := Some (Fin 1)\<rparr>,
      current = emptyConfig\<lparr>taxRate := Some 36, exemption := Some 59357,
              debtThreshold := Some 3800, savingsRate := Some (128 / 100),
              investRate := Some 6, debtRate := Some (27 / 10), allocSavings := Some 0,
              allocInvest := Some 100, allocDebt := Some 0, partnerMultiplier := Some (Fin 1)\<rparr>,
      future = emptyConfig\<lparr>taxRate := Some 36, freeReturn := Some 1800,
              lossThreshold := Some 500, partnerMultiplier := Some (Fin 1)\<rparr>\<rparr>"

section \<open>The simulation loop (runSimulation)\<close>

datatype system = NoTax | Old | Current | Future

definition systems :: "system list" where
  "systems = [NoTax, Old, Current, Future]"

record yearReturn =
  year :: int
  return :: real

text \<open>
  The fourth argument of \<open>runSimulation\<close>: a flat monthly amount, or an object that maps a
  year to a monthly amount.
\<close>

datatype contributions = Flat real | ByYear "int \<rightharpoonup> real"

text \<open>
  \<^verbatim>\<open>Math.max(0, Number(x) || 0)\<close>: a year that the object does not hold coerces to \<open>NaN\<close> and
  counts as \<open>0\<close>.
\<close>

fun depositOf :: "contributions \<Rightarrow> int \<Rightarrow> real" where
  "depositOf (ByYear m) yearKey = max 0 (numberOr (m yearKey) 0)"
| "depositOf (Flat a) yearKey = max 0 (numberOr (Some a) 0)"

text \<open>The three tracking objects, each keyed by the system.\<close>

record tracks =
  portfolioValues :: "system \<Rightarrow> real list"
  annualTax :: "system \<Rightarrow> real list"
  cumulativeTax :: "system \<Rightarrow> real list"

record simState = tracks +
  futureCarryForwardLoss :: real

text \<open>The twelve month-end steps: grow, then deposit.\<close>

fun monthlySteps :: "nat \<Rightarrow> real \<Rightarrow> real \<Rightarrow> real \<Rightarrow> real" where
  "monthlySteps 0 monthlyFactor deposit v = v"
| "monthlySteps (Suc m) monthlyFactor deposit v =
     monthlySteps m monthlyFactor deposit (v * monthlyFactor + deposit)"

definition annualFactorOf :: "yearReturn \<Rightarrow> real" where
  "annualFactorOf r = 1 + return r / 100"

definition monthlyFactorOf :: "real \<Rightarrow> real" where
  "monthlyFactorOf annualFactor =
     (if annualFactor \<le> 0 then 0 else annualFactor powr (1 / 12))"

definition valueAfterReturn :: "real \<Rightarrow> real \<Rightarrow> real \<Rightarrow> real" where
  "valueAfterReturn prevValue annualFactor deposit =
     (if deposit \<le> 0 then prevValue * annualFactor
      else monthlySteps 12 (monthlyFactorOf annualFactor) deposit prevValue)"

definition returnAmount :: "real \<Rightarrow> real \<Rightarrow> real \<Rightarrow> real" where
  "returnAmount prevValue annualFactor deposit =
     valueAfterReturn prevValue annualFactor deposit - prevValue - deposit * 12"

text \<open>
  The \<^verbatim>\<open>case 'future'\<close> block: the year's tax before the clamp, and the carried loss after
  the year.  The partner multiplier of this block is computed in place, without the
  finiteness test of \<open>getPartnerMultiplier\<close>.
\<close>

definition loopPartnerMultiplier :: "config \<Rightarrow> real" where
  "loopPartnerMultiplier c = (if greaterThanOne (Number (partnerMultiplier c)) then 2 else 1)"

definition lossThresholdOf :: "config \<Rightarrow> real" where
  "lossThresholdOf c = numberOr (lossThreshold c) 500 * loopPartnerMultiplier c"

definition futureCase :: "config \<Rightarrow> real \<Rightarrow> real \<Rightarrow> real \<Rightarrow> real \<times> real" where
  "futureCase c carry retAmount afterReturn =
     (let incomeBeforeLossSetoff = calcFutureIncome retAmount c;
          threshold = lossThresholdOf c
      in if incomeBeforeLossSetoff < 0 then
           (let recognisedLoss = \<bar>incomeBeforeLossSetoff\<bar>
            in (0, if threshold < recognisedLoss then carry + recognisedLoss else carry))
         else if incomeBeforeLossSetoff = 0 then (0, carry)
         else
           (let lossUsed = min carry incomeBeforeLossSetoff;
                taxableIncome = incomeBeforeLossSetoff - lossUsed
            in (calcFutureSystem afterReturn taxableIncome c, carry - lossUsed)))"

text \<open>The \<^verbatim>\<open>switch (sys)\<close>: the tax before the clamp and the carried loss after it.\<close>

fun taxSwitch :: "configs \<Rightarrow> system \<Rightarrow> real \<Rightarrow> real \<Rightarrow> real \<Rightarrow> real \<Rightarrow> real \<times> real" where
  "taxSwitch cs NoTax carry prevValue retAmount afterReturn = (calcNoTax, carry)"
| "taxSwitch cs Old carry prevValue retAmount afterReturn =
     (calcOldSystem prevValue retAmount (old cs), carry)"
| "taxSwitch cs Current carry prevValue retAmount afterReturn =
     (calcCurrentSystem prevValue retAmount (current cs), carry)"
| "taxSwitch cs Future carry prevValue retAmount afterReturn =
     futureCase (future cs) carry retAmount afterReturn"

text \<open>The body of the inner loop, for year index \<open>i\<close> and one system.\<close>

definition systemStep :: "configs \<Rightarrow> real \<Rightarrow> real \<Rightarrow> nat \<Rightarrow> simState \<Rightarrow> system \<Rightarrow> simState" where
  "systemStep cs annualFactor deposit i s sys =
     (let prevValue = portfolioValues s sys ! i;
          afterReturn = valueAfterReturn prevValue annualFactor deposit;
          retAmount = returnAmount prevValue annualFactor deposit;
          (tax0, carry) = taxSwitch cs sys (futureCarryForwardLoss s) prevValue retAmount afterReturn;
          tax = min tax0 (max 0 afterReturn);
          valueAfterTax = afterReturn - tax;
          prevCumTax = (if 0 < length (cumulativeTax s sys)
                        then cumulativeTax s sys ! (length (cumulativeTax s sys) - 1) else 0)
      in s\<lparr>portfolioValues := (portfolioValues s)(sys := portfolioValues s sys @ [valueAfterTax]),
           annualTax := (annualTax s)(sys := annualTax s sys @ [tax]),
           cumulativeTax := (cumulativeTax s)(sys := cumulativeTax s sys @ [prevCumTax + tax]),
           futureCarryForwardLoss := carry\<rparr>)"

text \<open>The body of the outer loop, for year index \<open>i\<close>.\<close>

definition yearStep :: "configs \<Rightarrow> yearReturn list \<Rightarrow> contributions \<Rightarrow> simState \<Rightarrow> nat \<Rightarrow> simState" where
  "yearStep cs returns contribs s i =
     (let yearKey = year (returns ! i);
          deposit = depositOf contribs yearKey;
          annualFactor = annualFactorOf (returns ! i)
      in foldl (systemStep cs annualFactor deposit i) s systems)"

definition initialState :: "real \<Rightarrow> simState" where
  "initialState startCapital =
     \<lparr>portfolioValues = (\<lambda>sys. [startCapital]),
      annualTax = (\<lambda>sys. []),
      cumulativeTax = (\<lambda>sys. []),
      futureCarryForwardLoss = 0\<rparr>"

text \<open>The state after the first \<open>k\<close> iterations of the outer loop.\<close>

definition simulateYears :: "real \<Rightarrow> yearReturn list \<Rightarrow> configs \<Rightarrow> contributions \<Rightarrow> nat \<Rightarrow> simState" where
  "simulateYears startCapital returns cs contribs k =
     foldl (yearStep cs returns contribs) (initialState startCapital) [0..<k]"

datatype label = StartLabel | YearLabel int

record simResult = tracks +
  labels :: "label list"
  taxLabels :: "label list"
  resultSystems :: "system list"

definition runSimulation :: "real \<Rightarrow> yearReturn list \<Rightarrow> configs \<Rightarrow> contributions \<Rightarrow> simResult" where
  "runSimulation startCapital returns cs contribs =
     (let years = map year returns;
          s = simulateYears startCapital returns cs contribs (length returns)
      in \<lparr>portfolioValues = portfolioValues s,
          annualTax = annualTax s,
          cumulativeTax = cumulativeTax s,
          labels = (if 0 < length years then YearLabel (years ! 0 - 1) else StartLabel)
                     # map YearLabel years,
          taxLabels = map YearLabel years,
          resultSystems = systems\<rparr>)"

section \<open>The contribution schedule (app.js, marketData.js)\<close>

text \<open>The table \<open>cpiData\<close>: the Dutch CPI, annual rate of change in percent.\<close>

definition cpiData :: "(int \<times> real) list" where
  "cpiData =
     [
      (1980, 65 / 10), (1981, 67 / 10), (1982, 60 / 10), (1983, 28 / 10), (1984, 33 / 10),
      (1985, 23 / 10), (1986, 2 / 10), (1987, - (5 / 10)), (1988, 7 / 10), (1989, 11 / 10),
      (1990, 25 / 10), (1991, 39 / 10), (1992, 37 / 10), (1993, 21 / 10), (1994, 27 / 10),
      (1995, 20 / 10), (1996, 21 / 10), (1997, 22 / 10), (1998, 20 / 10), (1999, 22 / 10),
      (2000, 26 / 10), (2001, 45 / 10), (2002, 34 / 10), (2003, 21 / 10), (2004, 12 / 10),
      (2005, 17 / 10), (2006, 11 / 10), (2007, 16 / 10), (2008, 25 / 10), (2009, 12 / 10),
      (2010, 13 / 10), (2011, 23 / 10), (2012, 25 / 10), (2013, 25 / 10), (2014, 10 / 10),
      (2015, 6 / 10), (2016, 3 / 10), (2017, 14 / 10), (2018, 17 / 10), (2019, 26 / 10),
      (2020, 13 / 10), (2021, 27 / 10), (2022, 100 / 10), (2023, 38 / 10), (2024, 33 / 10),
      (2025, 33 / 10)]"

text \<open>\<^verbatim>\<open>cpiData[year] ?? 0\<close>.\<close>

definition getCpiForYear :: "int \<Rightarrow> real" where
  "getCpiForYear y = (case map_of cpiData y of None \<Rightarrow> 0 | Some rate \<Rightarrow> rate)"

text \<open>
  \<^verbatim>\<open>Math.round(amount * 100) / 100\<close>; \<^verbatim>\<open>Math.round\<close> rounds a half towards plus infinity.
\<close>

definition roundCents :: "real \<Rightarrow> real" where
  "roundCents amount = of_int \<lfloor>amount * 100 + 1 / 2\<rfloor> / 100"

text \<open>
  The loop \<^verbatim>\<open>for (let y = startYear; y <= endYear; y++)\<close> of \<open>buildContributionsByYear\<close>,
  from year \<open>y\<close> on, with the map built so far and the running amount.
\<close>

function buildLoop :: "bool \<Rightarrow> int \<Rightarrow> int \<Rightarrow> int \<Rightarrow> (int \<rightharpoonup> real) \<Rightarrow> real \<Rightarrow> (int \<rightharpoonup> real)" where
  "buildLoop cpiEnabled startYear endYear y m amount =
     (if y \<le> endYear then
        (let amount' = (if cpiEnabled \<and> startYear < y
                        then amount * (1 + getCpiForYear y / 100) else amount)
         in buildLoop cpiEnabled startYear endYear (y + 1) (m(y \<mapsto> roundCents amount')) amount')
      else m)"
  by pat_completeness auto

termination
  by (relation "measure (\<lambda>(cpiEnabled, startYear, endYear, y, m, amount). nat (endYear + 1 - y))")
     auto

text \<open>The loop equation is unfolded by hand, one iteration at a time.\<close>

declare buildLoop.simps [simp del]

definition buildContributionsByYear :: "real \<Rightarrow> int \<Rightarrow> int \<Rightarrow> bool \<Rightarrow> (int \<rightharpoonup> real)" where
  "buildContributionsByYear baseAmount startYear endYear cpiEnabled =
     buildLoop cpiEnabled startYear endYear startYear Map.empty baseAmount"

section \<open>Notions used in the statements\<close>

subsection \<open>What one pass of the inner loop records\<close>

text \<open>
  The tax that one pass of the inner loop records for a system (after the clamp), and the
  carried loss it leaves, as functions of the carried loss and the start-of-year value it
  reads.
\<close>

definition taxOfYear :: "configs \<Rightarrow> system \<Rightarrow> real \<Rightarrow> real \<Rightarrow> real \<Rightarrow> real \<Rightarrow> real" where
  "taxOfYear cs sys carry prevValue annualFactor deposit =
     min (fst (taxSwitch cs sys carry prevValue
                 (returnAmount prevValue annualFactor deposit)
                 (valueAfterReturn prevValue annualFactor deposit)))
         (max 0 (valueAfterReturn prevValue annualFactor deposit))"

definition carryAfterYear :: "configs \<Rightarrow> system \<Rightarrow> real \<Rightarrow> real \<Rightarrow> real \<Rightarrow> real \<Rightarrow> real" where
  "carryAfterYear cs sys carry prevValue annualFactor deposit =
     snd (taxSwitch cs sys carry prevValue
            (returnAmount prevValue annualFactor deposit)
            (valueAfterReturn prevValue annualFactor deposit))"

definition lastOrZero :: "real list \<Rightarrow> real" where
  "lastOrZero xs = (if 0 < length xs then xs ! (length xs - 1) else 0)"

subsection \<open>The references worded by the specification\<close>

text \<open>
  The step-by-step reference for the Current regime, as the specification words it:
  normalise the three allocation weights to sum to one (no tax when all are zero or
  negative), split the base wealth by the shares, deduct the debt above the threshold,
  and apportion the taxable notional return by the share of the notional base that
  exceeds the exemption.
\<close>

definition referenceCurrentTax :: "real \<Rightarrow> config \<Rightarrow> real" where
  "referenceCurrentTax baseWealth c =
     (let wSavings = orDefault (allocSavings c) 0;
          wInvest = orDefault (allocInvest c) 100;
          wDebt = orDefault (allocDebt c) 0
      in if wSavings \<le> 0 \<and> wInvest \<le> 0 \<and> wDebt \<le> 0 then 0 else
         (let total = wSavings + wInvest + wDebt;
              savings = baseWealth * (wSavings / total);
              invest = baseWealth * (wInvest / total);
              debt = baseWealth * (wDebt / total);
              pm = getPartnerMultiplier c;
              deductibleDebt = max 0 (debt - orDefault (debtThreshold c) 3800 * pm);
              taxableNotionalReturn =
                savings * (orDefault (savingsRate c) (128 / 100) / 100)
                + invest * (orDefault (investRate c) 6 / 100)
                - deductibleDebt * (orDefault (debtRate c) (27 / 10) / 100);
              notionalBase = savings + invest - deductibleDebt
          in if taxableNotionalReturn \<le> 0 \<or> notionalBase \<le> 0 then 0
             else taxableNotionalReturn
                  * min 1 (max 0 (notionalBase - orDefault (exemption c) 59357 * pm) / notionalBase)
                  * (orDefault (taxRate c) 36 / 100)))"

text \<open>The configuration with each allocation weight floored at \<open>0\<close>.\<close>

definition floorWeights :: "config \<Rightarrow> config" where
  "floorWeights c =
     c\<lparr>allocSavings := Some (max 0 (orDefault (allocSavings c) 0)),
       allocInvest := Some (max 0 (orDefault (allocInvest c) 100)),
       allocDebt := Some (max 0 (orDefault (allocDebt c) 0))\<rparr>"

text \<open>
  The schedule as the specification words it: the amount of the first year is the base
  amount; the amount of each later year is the amount of the year before, multiplied by
  \<open>1 + indexRate year / 100\<close> when indexation is enabled and unchanged when it is not.
  \<open>scheduleAmount base enabled startYear n\<close> is the amount of year \<open>startYear + n\<close>.
\<close>

fun scheduleAmount :: "real \<Rightarrow> bool \<Rightarrow> int \<Rightarrow> nat \<Rightarrow> real" where
  "scheduleAmount base enabled startYear 0 = base"
| "scheduleAmount base enabled startYear (Suc n) =
     (if enabled
      then scheduleAmount base enabled startYear n
           * (1 + getCpiForYear (startYear + int (Suc n)) / 100)
      else scheduleAmount base enabled startYear n)"

subsection \<open>Example inputs\<close>

text \<open>A two-year series: a loss year, then a gain year.\<close>

definition exampleReturns :: "yearReturn list" where
  "exampleReturns = [\<lparr>year = 2024, return = - 10\<rparr>, \<lparr>year = 2025, return = 20\<rparr>]"

text \<open>A single loss year that, from a start capital of 5000, loses exactly 500.\<close>

definition boundaryReturns :: "yearReturn list" where
  "boundaryReturns = [\<lparr>year = 2024, return = - 10\<rparr>]"

text \<open>A single gain year, and the default configuration with negative tax rates.\<close>

definition gainReturns :: "yearReturn list" where
  "gainReturns = [\<lparr>year = 2024, return = 20\<rparr>]"

text \<open>A single year whose gain stays below the free return.\<close>

definition smallGainReturns :: "yearReturn list" where
  "smallGainReturns = [\<lparr>year = 2024, return = 1\<rparr>]"

definition negativeRateConfigs :: configs where
  "negativeRateConfigs =
     getDefaultConfigs
       \<lparr>old := (old getDefaultConfigs)\<lparr>taxRate := Some (- 30)\<rparr>,
        current := (current getDefaultConfigs)\<lparr>taxRate := Some (- 36)\<rparr>,
        future := (future getDefaultConfigs)\<lparr>taxRate := Some (- 36)\<rparr>\<rparr>"

text \<open>The default Current configuration with a negative savings weight.\<close>

definition negativeWeightConfig :: config where
  "negativeWeightConfig = (current getDefaultConfigs)\<lparr>allocSavings := Some (- 50)\<rparr>"

text \<open>
  The default configuration with a fiscal partner, and the default configuration with a
  loss threshold of \<open>0\<close>.
\<close>

definition partnerConfigs :: configs where
  "partnerConfigs =
     getDefaultConfigs\<lparr>future := (future getDefaultConfigs)\<lparr>partnerMultiplier := Some (Fin 2)\<rparr>\<rparr>"

definition zeroThresholdConfigs :: configs where
  "zeroThresholdConfigs =
     getDefaultConfigs\<lparr>future := (future getDefaultConfigs)\<lparr>lossThreshold := Some 0\<rparr>\<rparr>"

section \<open>One pass of the loops\<close>

lemma systemStep_eq:
  "systemStep cs af d i s sys =
     s\<lparr>portfolioValues := (portfolioValues s)(sys := portfolioValues s sys @
          [valueAfterReturn (portfolioValues s sys ! i) af d
             - taxOfYear cs sys (futureCarryForwardLoss s) (portfolioValues s sys ! i) af d]),
       annualTax := (annualTax s)(sys := annualTax s sys @
          [taxOfYear cs sys (futureCarryForwardLoss s) (portfolioValues s sys ! i) af d]),
       cumulativeTax := (cumulativeTax s)(sys := cumulativeTax s sys @
          [lastOrZero (cumulativeTax s sys)
             + taxOfYear cs sys (futureCarryForwardLoss s) (portfolioValues s sys ! i) af d]),
       futureCarryForwardLoss :=
          carryAfterYear cs sys (futureCarryForwardLoss s) (portfolioValues s sys ! i) af d\<rparr>"
  by (simp add: systemStep_def taxOfYear_def carryAfterYear_def lastOrZero_def Let_def
        split: prod.splits)

lemma carryAfterYear_other:
  "sys \<noteq> Future \<Longrightarrow> carryAfterYear cs sys carry p af d = carry"
  by (cases sys) (simp_all add: carryAfterYear_def)

lemma yearStep_portfolioValues:
  "portfolioValues (yearStep cs returns contribs s i) sys =
     portfolioValues s sys @
       [valueAfterReturn (portfolioValues s sys ! i) (annualFactorOf (returns ! i))
            (depositOf contribs (year (returns ! i)))
        - taxOfYear cs sys (futureCarryForwardLoss s) (portfolioValues s sys ! i)
            (annualFactorOf (returns ! i)) (depositOf contribs (year (returns ! i)))]"
  by (cases sys) (simp_all add: yearStep_def Let_def systems_def systemStep_eq carryAfterYear_other)

lemma yearStep_annualTax:
  "annualTax (yearStep cs returns contribs s i) sys =
     annualTax s sys @
       [taxOfYear cs sys (futureCarryForwardLoss s) (portfolioValues s sys ! i)
            (annualFactorOf (returns ! i)) (depositOf contribs (year (returns ! i)))]"
  by (cases sys) (simp_all add: yearStep_def Let_def systems_def systemStep_eq carryAfterYear_other)

lemma yearStep_cumulativeTax:
  "cumulativeTax (yearStep cs returns contribs s i) sys =
     cumulativeTax s sys @
       [lastOrZero (cumulativeTax s sys)
        + taxOfYear cs sys (futureCarryForwardLoss s) (portfolioValues s sys ! i)
            (annualFactorOf (returns ! i)) (depositOf contribs (year (returns ! i)))]"
  by (cases sys) (simp_all add: yearStep_def Let_def systems_def systemStep_eq carryAfterYear_other)

lemma yearStep_carry:
  "futureCarryForwardLoss (yearStep cs returns contribs s i) =
     carryAfterYear cs Future (futureCarryForwardLoss s) (portfolioValues s Future ! i)
        (annualFactorOf (returns ! i)) (depositOf contribs (year (returns ! i)))"
  by (simp add: yearStep_def Let_def systems_def systemStep_eq carryAfterYear_other)

lemma simulateYears_Suc:
  "simulateYears sc returns cs contribs (Suc k) =
     yearStep cs returns contribs (simulateYears sc returns cs contribs k) k"
  by (simp add: simulateYears_def)

lemma simulateYears_0: "simulateYears sc returns cs contribs 0 = initialState sc"
  by (simp add: simulateYears_def)

lemma simulateYears_2:
  "simulateYears sc returns cs contribs 2 =
     yearStep cs returns contribs (simulateYears sc returns cs contribs 1) 1"
  using simulateYears_Suc [of sc returns cs contribs 1] by (simp add: numeral_2_eq_2)

lemma simulateYears_lengths:
  "length (portfolioValues (simulateYears sc returns cs contribs k) sys) = Suc k \<and>
   length (annualTax (simulateYears sc returns cs contribs k) sys) = k \<and>
   length (cumulativeTax (simulateYears sc returns cs contribs k) sys) = k"
proof (induction k)
  case 0
  show ?case by (simp add: simulateYears_0 initialState_def)
next
  case (Suc k)
  then show ?case
    by (simp add: simulateYears_Suc yearStep_portfolioValues yearStep_annualTax
          yearStep_cumulativeTax)
qed

lemma simulateYears_prefix:
  "j \<le> k \<Longrightarrow>
     portfolioValues (simulateYears sc returns cs contribs j) sys =
       take (Suc j) (portfolioValues (simulateYears sc returns cs contribs k) sys) \<and>
     annualTax (simulateYears sc returns cs contribs j) sys =
       take j (annualTax (simulateYears sc returns cs contribs k) sys) \<and>
     cumulativeTax (simulateYears sc returns cs contribs j) sys =
       take j (cumulativeTax (simulateYears sc returns cs contribs k) sys)"
proof (induction k)
  case 0
  then show ?case by (simp add: simulateYears_0 initialState_def)
next
  case (Suc k)
  show ?case
  proof (cases "j = Suc k")
    case True
    then show ?thesis using simulateYears_lengths [of sc returns cs contribs "Suc k" sys]
      by simp
  next
    case False
    with Suc.prems have "j \<le> k" by simp
    with Suc.IH show ?thesis
      using simulateYears_lengths [of sc returns cs contribs k sys]
      by (simp add: simulateYears_Suc yearStep_portfolioValues yearStep_annualTax
            yearStep_cumulativeTax)
  qed
qed

lemma simulateYears_year:
  fixes sc :: real and returns :: "yearReturn list" and cs :: configs and contribs :: contributions
    and sys :: system and i n :: nat
  assumes "i < n"
  defines "S \<equiv> simulateYears sc returns cs contribs n"
  defines "p \<equiv> portfolioValues (simulateYears sc returns cs contribs n) sys ! i"
  defines "t \<equiv> taxOfYear cs sys
                  (futureCarryForwardLoss (simulateYears sc returns cs contribs i)) 
                  (portfolioValues (simulateYears sc returns cs contribs n) sys ! i)
                  (annualFactorOf (returns ! i)) (depositOf contribs (year (returns ! i)))"
  shows "annualTax S sys ! i = t"
    and "portfolioValues S sys ! Suc i =
           valueAfterReturn p (annualFactorOf (returns ! i))
             (depositOf contribs (year (returns ! i))) - t"
    and "cumulativeTax S sys ! i = (if i = 0 then 0 else cumulativeTax S sys ! (i - 1)) + t"
proof -
  let ?sim = "simulateYears sc returns cs contribs"
  have le: "Suc i \<le> n" and le': "i \<le> n" using assms(1) by simp_all
  have len: "length (portfolioValues (?sim i) sys) = Suc i"
    "length (annualTax (?sim i) sys) = i" "length (cumulativeTax (?sim i) sys) = i"
    using simulateYears_lengths [of sc returns cs contribs i sys] by simp_all
  have pi: "portfolioValues (?sim i) sys ! i = p"
    using simulateYears_prefix [OF le', of sc returns cs contribs sys]
    by (simp add: p_def)
  have a: "annualTax (?sim (Suc i)) sys ! i = annualTax S sys ! i"
    and b: "portfolioValues (?sim (Suc i)) sys ! Suc i = portfolioValues S sys ! Suc i"
    and c: "cumulativeTax (?sim (Suc i)) sys ! i = cumulativeTax S sys ! i"
    using simulateYears_prefix [OF le, of sc returns cs contribs sys] by (simp_all add: S_def)
  show "annualTax S sys ! i = t"
    using a len pi by (simp add: simulateYears_Suc yearStep_annualTax t_def p_def nth_append)
  show "portfolioValues S sys ! Suc i =
           valueAfterReturn p (annualFactorOf (returns ! i))
             (depositOf contribs (year (returns ! i))) - t"
    using b len pi
    by (simp add: simulateYears_Suc yearStep_portfolioValues t_def p_def nth_append)
  have l: "lastOrZero (cumulativeTax (?sim i) sys) =
      (if i = 0 then 0 else cumulativeTax S sys ! (i - 1))"
  proof (cases "i = 0")
    case True
    then show ?thesis using len by (simp add: lastOrZero_def)
  next
    case False
    then have "cumulativeTax (?sim i) sys ! (i - 1) = cumulativeTax S sys ! (i - 1)"
      using simulateYears_prefix [OF le', of sc returns cs contribs sys] by (simp add: S_def)
    then show ?thesis using False len by (simp add: lastOrZero_def)
  qed
  show "cumulativeTax S sys ! i = (if i = 0 then 0 else cumulativeTax S sys ! (i - 1)) + t"
    using c len pi l
    by (simp add: simulateYears_Suc yearStep_cumulativeTax t_def p_def nth_append)
qed

lemma simulateYears_prevValue:
  "i \<le> n \<Longrightarrow>
     portfolioValues (simulateYears sc returns cs contribs i) sys ! i =
     portfolioValues (simulateYears sc returns cs contribs n) sys ! i"
  using simulateYears_prefix [of i n sc returns cs contribs sys] by simp

lemma simulateYears_carry:
  "futureCarryForwardLoss (simulateYears sc returns cs contribs (Suc i)) =
     snd (futureCase (future cs)
            (futureCarryForwardLoss (simulateYears sc returns cs contribs i))
            (returnAmount (portfolioValues (simulateYears sc returns cs contribs i) Future ! i)
               (annualFactorOf (returns ! i)) (depositOf contribs (year (returns ! i))))
            (valueAfterReturn (portfolioValues (simulateYears sc returns cs contribs i) Future ! i)
               (annualFactorOf (returns ! i)) (depositOf contribs (year (returns ! i)))))"
  by (simp add: simulateYears_Suc yearStep_carry carryAfterYear_def)

lemma run_tracks:
  "portfolioValues (runSimulation sc returns cs contribs) =
     portfolioValues (simulateYears sc returns cs contribs (length returns))"
  "annualTax (runSimulation sc returns cs contribs) =
     annualTax (simulateYears sc returns cs contribs (length returns))"
  "cumulativeTax (runSimulation sc returns cs contribs) =
     cumulativeTax (simulateYears sc returns cs contribs (length returns))"
  by (simp_all add: runSimulation_def Let_def)

lemma run_start: "portfolioValues (runSimulation sc returns cs contribs) sys ! 0 = sc"
  using simulateYears_prevValue [of 0 "length returns" sc returns cs contribs sys]
  by (simp add: run_tracks simulateYears_0 initialState_def)

lemma run_year_tax:
  "i < length returns \<Longrightarrow>
     annualTax (runSimulation sc returns cs contribs) sys ! i =
       taxOfYear cs sys (futureCarryForwardLoss (simulateYears sc returns cs contribs i))
         (portfolioValues (runSimulation sc returns cs contribs) sys ! i)
         (annualFactorOf (returns ! i)) (depositOf contribs (year (returns ! i)))"
  using simulateYears_year(1) [of i "length returns" sc returns cs contribs sys]
  by (simp add: run_tracks)

lemma run_year_carry:
  "i < length returns \<Longrightarrow>
     futureCarryForwardLoss (simulateYears sc returns cs contribs (Suc i)) =
       snd (futureCase (future cs)
            (futureCarryForwardLoss (simulateYears sc returns cs contribs i))
            (returnAmount (portfolioValues (runSimulation sc returns cs contribs) Future ! i)
               (annualFactorOf (returns ! i)) (depositOf contribs (year (returns ! i))))
            (valueAfterReturn (portfolioValues (runSimulation sc returns cs contribs) Future ! i)
               (annualFactorOf (returns ! i)) (depositOf contribs (year (returns ! i)))))"
  using simulateYears_prevValue [of i "length returns" sc returns cs contribs Future]
  by (simp add: simulateYears_carry run_tracks)

section \<open>The calculators\<close>

lemma calcOldSystem_nonneg: "0 \<le> calcOldSystem w r c"
  by (simp add: calcOldSystem_def Let_def)

lemma calcCurrentSystem_nonneg: "0 \<le> calcCurrentSystem w r c"
  by (simp add: calcCurrentSystem_def Let_def)

lemma calcFutureSystem_nonneg: "0 \<le> calcFutureSystem w t c"
  by (simp add: calcFutureSystem_def Let_def)

lemma calcOldSystem_eq:
  "calcOldSystem w r c =
     max 0 (max 0 (w - orDefault (exemption c) 21139 * getPartnerMultiplier c)
            * (orDefault (deemedReturn c) 4 / 100) * (orDefault (taxRate c) 30 / 100))"
  by (simp add: calcOldSystem_def Let_def)

lemma calcCurrentSystem_ignores_return: "calcCurrentSystem w r c = calcCurrentSystem w r' c"
  by (simp add: calcCurrentSystem_def)

lemma calcFutureSystem_eq:
  "0 \<le> t \<Longrightarrow> calcFutureSystem w t c = max 0 (t * (orDefault (taxRate c) 36 / 100))"
  by (simp add: calcFutureSystem_def Let_def)

lemma getPartnerMultiplier_cases:
  "getPartnerMultiplier c =
     (case partnerMultiplier c of
        Some (Fin x) \<Rightarrow> if 1 < x then 2 else 1
      | _ \<Rightarrow> 1)"
  by (simp add: getPartnerMultiplier_def Number_def isFinite_def greaterThanOne_def
        split: option.splits jsnum.splits)

lemma getPartnerMultiplier_update:
  "getPartnerMultiplier (c\<lparr>partnerMultiplier := Some (Fin m)\<rparr>) = (if 1 < m then 2 else 1)"
  by (simp add: getPartnerMultiplier_cases)

lemma calculators_depend_on_effective_multiplier:
  assumes "getPartnerMultiplier c = getPartnerMultiplier (c\<lparr>partnerMultiplier := v\<rparr>)"
  shows "calcOldSystem w r c = calcOldSystem w r (c\<lparr>partnerMultiplier := v\<rparr>)"
    and "calcCurrentSystem w r c = calcCurrentSystem w r (c\<lparr>partnerMultiplier := v\<rparr>)"
    and "calcFutureIncome r c = calcFutureIncome r (c\<lparr>partnerMultiplier := v\<rparr>)"
  unfolding calcOldSystem_def calcCurrentSystem_def calcFutureIncome_def assms [symmetric]
  by simp_all

subsection \<open>The Future branch and the tax switch\<close>

lemma futureCase_nonneg: "0 \<le> fst (futureCase c carry r w)"
  by (simp add: futureCase_def Let_def calcFutureSystem_nonneg)

lemma futureCase_carry_nonneg: "0 \<le> carry \<Longrightarrow> 0 \<le> snd (futureCase c carry r w)"
  by (simp add: futureCase_def Let_def)

lemma futureCase_loss:
  "calcFutureIncome r c < 0 \<Longrightarrow>
     futureCase c carry r w =
       (0, if numberOr (lossThreshold c) 500 * loopPartnerMultiplier c < \<bar>calcFutureIncome r c\<bar>
           then carry + \<bar>calcFutureIncome r c\<bar> else carry)"
  by (simp add: futureCase_def Let_def lossThresholdOf_def)

lemma futureCase_zero:
  "calcFutureIncome r c = 0 \<Longrightarrow> futureCase c carry r w = (0, carry)"
  by (simp add: futureCase_def Let_def)

lemma futureCase_gain:
  "0 < calcFutureIncome r c \<Longrightarrow>
     futureCase c carry r w =
       (calcFutureSystem w (calcFutureIncome r c - min carry (calcFutureIncome r c)) c,
        carry - min carry (calcFutureIncome r c))"
  by (simp add: futureCase_def Let_def)

text \<open>
  How the loop's threshold reads the configuration: a threshold of \<open>0\<close> counts as absent,
  and the multiplier agrees with \<open>getPartnerMultiplier\<close> except on plus infinity.
\<close>

lemma lossThreshold_reading:
  "lossThreshold c = Some t \<Longrightarrow> t \<noteq> 0 \<Longrightarrow> numberOr (lossThreshold c) 500 = t"
  "lossThreshold c = Some 0 \<Longrightarrow> numberOr (lossThreshold c) 500 = 500"
  "lossThreshold c = None \<Longrightarrow> numberOr (lossThreshold c) 500 = 500"
  by (simp_all add: numberOr_def)

lemma loopPartnerMultiplier_reading:
  "partnerMultiplier c \<noteq> Some PosInf \<Longrightarrow> loopPartnerMultiplier c = getPartnerMultiplier c"
  by (simp add: loopPartnerMultiplier_def getPartnerMultiplier_def Number_def isFinite_def
        greaterThanOne_def split: option.splits jsnum.splits)

lemma lossThresholdOf_cases:
  "numberOr (lossThreshold c) 500 * loopPartnerMultiplier c =
     (case lossThreshold c of None \<Rightarrow> 500 | Some t \<Rightarrow> if t = 0 then 500 else t)
     * (case partnerMultiplier c of
          Some (Fin x) \<Rightarrow> if 1 < x then 2 else 1
        | Some PosInf \<Rightarrow> 2
        | _ \<Rightarrow> 1)"
  by (simp add: numberOr_def loopPartnerMultiplier_def Number_def greaterThanOne_def
        split: option.splits jsnum.splits)

lemma taxSwitch_nonneg: "0 \<le> fst (taxSwitch cs sys carry p r w)"
  by (cases sys)
     (simp_all add: calcNoTax_def calcOldSystem_nonneg calcCurrentSystem_nonneg futureCase_nonneg)

lemma taxOfYear_bounds:
  "0 \<le> taxOfYear cs sys carry p af d \<and>
   taxOfYear cs sys carry p af d \<le> max 0 (valueAfterReturn p af d)"
  using taxSwitch_nonneg [of cs sys carry p "returnAmount p af d" "valueAfterReturn p af d"]
  by (simp add: taxOfYear_def)

lemma taxOfYear_Future:
  "taxOfYear cs Future carry p af d =
     min (fst (futureCase (future cs) carry (returnAmount p af d) (valueAfterReturn p af d)))
         (max 0 (valueAfterReturn p af d))"
  by (simp add: taxOfYear_def)

lemma taxOfYear_Current:
  "taxOfYear cs Current carry p af d =
     min (calcCurrentSystem p 0 (current cs)) (max 0 (valueAfterReturn p af d))"
  using calcCurrentSystem_ignores_return [of p "returnAmount p af d" "current cs" 0]
  by (simp add: taxOfYear_def)

lemma simulateYears_cumulative_sorted:
  "sorted (cumulativeTax (simulateYears sc returns cs contribs k) sys)"
proof (induction k)
  case 0
  show ?case by (simp add: simulateYears_0 initialState_def)
next
  case (Suc k)
  let ?c = "cumulativeTax (simulateYears sc returns cs contribs k) sys"
  have "\<forall>x\<in>set ?c. x \<le> lastOrZero ?c"
  proof
    fix x assume "x \<in> set ?c"
    then obtain j where j: "j < length ?c" "?c ! j = x" by (auto simp: in_set_conv_nth)
    then have "?c ! j \<le> ?c ! (length ?c - 1)"
      using Suc.IH by (intro sorted_nth_mono) simp_all
    with j show "x \<le> lastOrZero ?c" by (auto simp add: lastOrZero_def)
  qed
  then show ?case
    using Suc.IH taxOfYear_bounds
    by (fastforce simp add: simulateYears_Suc yearStep_cumulativeTax sorted_append
          intro: add_increasing2)
qed

subsection \<open>The Current regime against its reference\<close>

lemma numberOr_Some_zero: "numberOr (Some x) 0 = x"
  by (simp add: numberOr_def)

lemma calcCurrentSystem_flat:
  fixes w :: real and c :: config
  defines "s \<equiv> max 0 (orDefault (allocSavings c) 0)"
  defines "i \<equiv> max 0 (orDefault (allocInvest c) 100)"
  defines "d \<equiv> max 0 (orDefault (allocDebt c) 0)"
  defines "T \<equiv> s + i + d"
  defines "pm \<equiv> getPartnerMultiplier c"
  defines "dd \<equiv> max 0 (w * (d / T) - orDefault (debtThreshold c) 3800 * pm)"
  defines "tnr \<equiv> w * (s / T) * (orDefault (savingsRate c) (128 / 100) / 100)
                  + w * (i / T) * (orDefault (investRate c) 6 / 100)
                  - dd * (orDefault (debtRate c) (27 / 10) / 100)"
  defines "nb \<equiv> w * (s / T) + w * (i / T) - dd"
  defines "E \<equiv> orDefault (exemption c) 59357 * pm"
  shows "calcCurrentSystem w r c =
           (if w \<le> 0 \<or> T \<le> 0 \<or> tnr \<le> 0 \<or> nb \<le> 0 \<or> nb - E \<le> 0 then 0
            else max 0 (tnr * min 1 ((nb - E) / nb) * (orDefault (taxRate c) 36 / 100)))"
proof -
  have sh: "normalizeAllocations (orDefault (allocSavings c) 0) (orDefault (allocInvest c) 100)
              (orDefault (allocDebt c) 0) =
            (if T \<le> 0 then \<lparr>savingsShare = 0, investShare = 0, debtShare = 0\<rparr>
             else \<lparr>savingsShare = s / T, investShare = i / T, debtShare = d / T\<rparr>)"
    by (simp only: normalizeAllocations_def numberOr_Some_zero Let_def s_def i_def d_def T_def)
  show ?thesis
  proof (cases "w \<le> 0")
    case True
    then show ?thesis by (simp add: calcCurrentSystem_def Let_def)
  next
    case w: False
    then have mw: "max 0 w = w" by simp
    show ?thesis
    proof (cases "T \<le> 0")
      case True
      then show ?thesis
        unfolding calcCurrentSystem_def Let_def sh by simp
    next
      case T: False
      have nz: "\<not> (s / T = 0 \<and> i / T = 0 \<and> d / T = 0)"
      proof
        assume "s / T = 0 \<and> i / T = 0 \<and> d / T = 0"
        then have "s = 0" "i = 0" "d = 0" using T by simp_all
        then show False using T by (simp add: T_def)
      qed
      have gsb: "max 0 (nb - E) \<le> 0 \<longleftrightarrow> nb - E \<le> 0" by simp
      have gsb': "\<not> nb - E \<le> 0 \<Longrightarrow> max 0 (nb - E) = nb - E" by simp
      have "calcCurrentSystem w r c =
          (if tnr \<le> 0 then 0 else if nb \<le> 0 then 0 else if max 0 (nb - E) \<le> 0 then 0
           else max 0 (tnr * min 1 (max 0 (nb - E) / nb) * (orDefault (taxRate c) 36 / 100)))"
        unfolding calcCurrentSystem_def Let_def sh mw
        using w T nz
        by (simp only: if_False shares.simps pm_def dd_def tnr_def nb_def E_def)
      then show ?thesis
        using w T gsb' by (simp only: gsb) simp
    qed
  qed
qed

lemma floorWeights_fields:
  "orDefault (allocSavings (floorWeights c)) 0 = max 0 (orDefault (allocSavings c) 0)"
  "orDefault (allocInvest (floorWeights c)) 100 = max 0 (orDefault (allocInvest c) 100)"
  "orDefault (allocDebt (floorWeights c)) 0 = max 0 (orDefault (allocDebt c) 0)"
  "getPartnerMultiplier (floorWeights c) = getPartnerMultiplier c"
  "debtThreshold (floorWeights c) = debtThreshold c"
  "savingsRate (floorWeights c) = savingsRate c"
  "investRate (floorWeights c) = investRate c"
  "debtRate (floorWeights c) = debtRate c"
  "exemption (floorWeights c) = exemption c"
  "taxRate (floorWeights c) = taxRate c"
  by (simp_all add: floorWeights_def orDefault_def getPartnerMultiplier_def)

lemma referenceCurrentTax_floorWeights:
  fixes w :: real and c :: config
  defines "s \<equiv> max 0 (orDefault (allocSavings c) 0)"
  defines "i \<equiv> max 0 (orDefault (allocInvest c) 100)"
  defines "d \<equiv> max 0 (orDefault (allocDebt c) 0)"
  defines "T \<equiv> s + i + d"
  defines "pm \<equiv> getPartnerMultiplier c"
  defines "dd \<equiv> max 0 (w * (d / T) - orDefault (debtThreshold c) 3800 * pm)"
  defines "tnr \<equiv> w * (s / T) * (orDefault (savingsRate c) (128 / 100) / 100)
                  + w * (i / T) * (orDefault (investRate c) 6 / 100)
                  - dd * (orDefault (debtRate c) (27 / 10) / 100)"
  defines "nb \<equiv> w * (s / T) + w * (i / T) - dd"
  defines "E \<equiv> orDefault (exemption c) 59357 * pm"
  shows "referenceCurrentTax w (floorWeights c) =
           (if T \<le> 0 \<or> tnr \<le> 0 \<or> nb \<le> 0 then 0
            else tnr * min 1 (max 0 (nb - E) / nb) * (orDefault (taxRate c) 36 / 100))"
proof -
  have nn: "0 \<le> s" "0 \<le> i" "0 \<le> d" by (simp_all add: s_def i_def d_def)
  then have all: "(s \<le> 0 \<and> i \<le> 0 \<and> d \<le> 0) \<longleftrightarrow> T \<le> 0"
    unfolding T_def by linarith
  show ?thesis
    unfolding referenceCurrentTax_def Let_def floorWeights_fields
      s_def [symmetric] i_def [symmetric] d_def [symmetric] all T_def [symmetric]
    by (simp only: pm_def dd_def tnr_def nb_def E_def) simp
qed

lemma calcCurrentSystem_reference:
  "calcCurrentSystem w r c = max 0 (referenceCurrentTax w (floorWeights c))"
proof -
  define s where "s = max 0 (orDefault (allocSavings c) 0)"
  define i where "i = max 0 (orDefault (allocInvest c) 100)"
  define d where "d = max 0 (orDefault (allocDebt c) 0)"
  define T where "T = s + i + d"
  define pm where "pm = getPartnerMultiplier c"
  define dd where "dd = max 0 (w * (d / T) - orDefault (debtThreshold c) 3800 * pm)"
  define tnr where "tnr = w * (s / T) * (orDefault (savingsRate c) (128 / 100) / 100)
                  + w * (i / T) * (orDefault (investRate c) 6 / 100)
                  - dd * (orDefault (debtRate c) (27 / 10) / 100)"
  define nb where "nb = w * (s / T) + w * (i / T) - dd"
  define E where "E = orDefault (exemption c) 59357 * pm"
  define t where "t = orDefault (taxRate c) 36 / 100"
  have code: "calcCurrentSystem w r c =
           (if w \<le> 0 \<or> T \<le> 0 \<or> tnr \<le> 0 \<or> nb \<le> 0 \<or> nb - E \<le> 0 then 0
            else max 0 (tnr * min 1 ((nb - E) / nb) * t))"
    unfolding s_def i_def d_def T_def pm_def dd_def tnr_def nb_def E_def t_def
    by (rule calcCurrentSystem_flat)
  have ref: "referenceCurrentTax w (floorWeights c) =
           (if T \<le> 0 \<or> tnr \<le> 0 \<or> nb \<le> 0 then 0
            else tnr * min 1 (max 0 (nb - E) / nb) * t)"
    unfolding s_def i_def d_def T_def pm_def dd_def tnr_def nb_def E_def t_def
    by (rule referenceCurrentTax_floorWeights)
  have nn: "0 \<le> s" "0 \<le> i" "0 \<le> d" "0 \<le> dd" by (simp_all add: s_def i_def d_def dd_def)
  have neg: "nb \<le> 0" if "w \<le> 0" "0 < T"
  proof -
    have "0 \<le> s / T" "0 \<le> i / T" using that nn by simp_all
    then have "w * (s / T) \<le> 0" "w * (i / T) \<le> 0"
      using that(1) mult_nonpos_nonneg [of w "s / T"] mult_nonpos_nonneg [of w "i / T"]
      by blast+
    then show ?thesis using nn unfolding nb_def by linarith
  qed
  show ?thesis
  proof (cases "T \<le> 0 \<or> tnr \<le> 0 \<or> nb \<le> 0")
    case True
    then show ?thesis unfolding code ref by auto
  next
    case False
    then have T: "0 < T" and nb: "0 < nb" and tnr: "0 < tnr" by simp_all
    have w: "0 < w" using neg T nb by fastforce
    show ?thesis
    proof (cases "nb - E \<le> 0")
      case True
      then have "max 0 (nb - E) = 0" by simp
      then show ?thesis unfolding code ref using True by simp
    next
      case False
      then have "max 0 (nb - E) = nb - E" by simp
      then show ?thesis unfolding code ref using False w T nb tnr by simp
    qed
  qed
qed

lemma referenceCurrentTax_nonneg_weights:
  assumes "0 \<le> orDefault (allocSavings c) 0" "0 \<le> orDefault (allocInvest c) 100"
    "0 \<le> orDefault (allocDebt c) 0"
  shows "referenceCurrentTax w (floorWeights c) = referenceCurrentTax w c"
proof -
  have "max 0 (orDefault (allocSavings c) 0) = orDefault (allocSavings c) 0"
    "max 0 (orDefault (allocInvest c) 100) = orDefault (allocInvest c) 100"
    "max 0 (orDefault (allocDebt c) 0) = orDefault (allocDebt c) 0"
    using assms by simp_all
  then show ?thesis
    by (simp only: referenceCurrentTax_def floorWeights_fields)
qed

lemma referenceCurrentTax_nonneg:
  assumes "0 \<le> orDefault (taxRate c) 36"
  shows "0 \<le> referenceCurrentTax w c"
proof -
  define T where "T = orDefault (allocSavings c) 0 + orDefault (allocInvest c) 100
                      + orDefault (allocDebt c) 0"
  define pm where "pm = getPartnerMultiplier c"
  define dd where "dd = max 0 (w * (orDefault (allocDebt c) 0 / T)
                               - orDefault (debtThreshold c) 3800 * pm)"
  define tnr where "tnr = w * (orDefault (allocSavings c) 0 / T)
                            * (orDefault (savingsRate c) (128 / 100) / 100)
                  + w * (orDefault (allocInvest c) 100 / T) * (orDefault (investRate c) 6 / 100)
                  - dd * (orDefault (debtRate c) (27 / 10) / 100)"
  define nb where "nb = w * (orDefault (allocSavings c) 0 / T)
                        + w * (orDefault (allocInvest c) 100 / T) - dd"
  define E where "E = orDefault (exemption c) 59357 * pm"
  have ref: "referenceCurrentTax w c =
      (if orDefault (allocSavings c) 0 \<le> 0 \<and> orDefault (allocInvest c) 100 \<le> 0
          \<and> orDefault (allocDebt c) 0 \<le> 0 then 0
       else if tnr \<le> 0 \<or> nb \<le> 0 then 0
       else tnr * min 1 (max 0 (nb - E) / nb) * (orDefault (taxRate c) 36 / 100))"
    unfolding tnr_def nb_def E_def dd_def pm_def T_def
    by (simp only: referenceCurrentTax_def Let_def)
  have "0 \<le> tnr * min 1 (max 0 (nb - E) / nb) * (orDefault (taxRate c) 36 / 100)"
    if "0 < tnr" "0 < nb"
  proof -
    have "0 \<le> min 1 (max 0 (nb - E) / nb)" using that by simp
    then show ?thesis using that assms by (intro mult_nonneg_nonneg) simp_all
  qed
  then show ?thesis unfolding ref by (simp add: not_le)
qed

section \<open>The contribution schedule\<close>

lemma buildLoop_result:
  assumes "startYear \<le> y"
    and "amount = scheduleAmount base cpiEnabled startYear (nat (y - 1 - startYear))"
  shows "buildLoop cpiEnabled startYear endYear y m amount k =
           (if y \<le> k \<and> k \<le> endYear
            then Some (roundCents (scheduleAmount base cpiEnabled startYear (nat (k - startYear))))
            else m k)"
  using assms
proof (induction cpiEnabled startYear endYear y m amount rule: buildLoop.induct)
  case (1 cpiEnabled startYear endYear y m amount)
  show ?case
  proof (cases "y \<le> endYear")
    case False
    then show ?thesis by (auto simp add: buildLoop.simps [of _ _ _ y])
  next
    case True
    define amount' where "amount' = (if cpiEnabled \<and> startYear < y
                        then amount * (1 + getCpiForYear y / 100) else amount)"
    have am: "amount' = scheduleAmount base cpiEnabled startYear (nat (y - startYear))"
    proof (cases "startYear < y")
      case False
      with "1.prems" show ?thesis by (simp add: amount'_def)
    next
      case True
      then have n: "nat (y - startYear) = Suc (nat (y - 1 - startYear))" by simp
      have y: "startYear + int (Suc (nat (y - 1 - startYear))) = y" using True by simp
      show ?thesis unfolding n using "1.prems"(2) True by (simp add: amount'_def y del: of_nat_Suc)
    qed
    have step: "buildLoop cpiEnabled startYear endYear y m amount =
        buildLoop cpiEnabled startYear endYear (y + 1) (m(y \<mapsto> roundCents amount')) amount'"
      using True by (simp add: buildLoop.simps [of _ _ _ y] amount'_def Let_def)
    have p1: "startYear \<le> y + 1" using "1.prems"(1) by simp
    have p2: "amount' = scheduleAmount base cpiEnabled startYear (nat (y + 1 - 1 - startYear))"
      using am by simp
    note ih = "1.IH" [OF True amount'_def p1 p2]
    show ?thesis
      unfolding step ih using True by (auto simp add: am)
  qed
qed

lemma schedule_lookup:
  "buildContributionsByYear baseAmount startYear endYear cpiEnabled y =
     (if startYear \<le> y \<and> y \<le> endYear
      then Some (roundCents (scheduleAmount baseAmount cpiEnabled startYear (nat (y - startYear))))
      else None)"
  unfolding buildContributionsByYear_def
  by (subst buildLoop_result [where base = baseAmount]) simp_all

lemma scheduleAmount_disabled: "scheduleAmount base False startYear n = base"
  by (induction n) simp_all

lemma getCpiForYear_missing: "map_of cpiData y = None \<Longrightarrow> getCpiForYear y = 0"
  by (simp add: getCpiForYear_def)

lemma scheduleAmount_missing:
  "(\<forall>y. startYear < y \<and> y \<le> startYear + int n \<longrightarrow> map_of cpiData y = None) \<Longrightarrow>
     scheduleAmount base enabled startYear n = base"
proof (induction n)
  case 0
  show ?case by simp
next
  case (Suc n)
  then have "scheduleAmount base enabled startYear n = base" by simp
  moreover have "getCpiForYear (startYear + int (Suc n)) = 0"
    using Suc.prems by (intro getCpiForYear_missing) simp
  ultimately show ?case by (cases enabled) simp_all
qed

lemma roundCents_cents: "\<exists>k::int. roundCents a = of_int k / 100"
  unfolding roundCents_def by blast

section \<open>Example runs, evaluated\<close>

lemmas example_defs =
  exampleReturns_def annualFactorOf_def valueAfterReturn_def returnAmount_def numberOr_def
  futureCase_def calcFutureIncome_def calcFutureSystem_def getDefaultConfigs_def emptyConfig_def
  orDefault_def getPartnerMultiplier_def Number_def isFinite_def greaterThanOne_def
  lossThresholdOf_def loopPartnerMultiplier_def taxOfYear_def carryAfterYear_def lastOrZero_def
  Let_def

lemma example_year1:
  "portfolioValues (simulateYears 100000 exampleReturns getDefaultConfigs (Flat 0) 1) Future
     = [100000, 90000]"
  "annualTax (simulateYears 100000 exampleReturns getDefaultConfigs (Flat 0) 1) Future = [0]"
  "cumulativeTax (simulateYears 100000 exampleReturns getDefaultConfigs (Flat 0) 1) Future = [0]"
  "futureCarryForwardLoss (simulateYears 100000 exampleReturns getDefaultConfigs (Flat 0) 1)
     = 10000"
  by (simp_all add: simulateYears_Suc simulateYears_0 initialState_def yearStep_portfolioValues
        yearStep_annualTax yearStep_cumulativeTax yearStep_carry example_defs)

lemma example_year2:
  "portfolioValues (simulateYears 100000 exampleReturns getDefaultConfigs (Flat 0) 2) Future
     = [100000, 90000, 105768]"
  "annualTax (simulateYears 100000 exampleReturns getDefaultConfigs (Flat 0) 2) Future
     = [0, 2232]"
  "cumulativeTax (simulateYears 100000 exampleReturns getDefaultConfigs (Flat 0) 2) Future
     = [0, 2232]"
  "futureCarryForwardLoss (simulateYears 100000 exampleReturns getDefaultConfigs (Flat 0) 2)
     = 0"
  unfolding simulateYears_2 yearStep_portfolioValues yearStep_annualTax yearStep_cumulativeTax
    yearStep_carry example_year1
  by (simp_all add: example_defs)

lemma example_run:
  "portfolioValues (runSimulation 100000 exampleReturns getDefaultConfigs (Flat 0)) Future
     = [100000, 90000, 105768]"
  "annualTax (runSimulation 100000 exampleReturns getDefaultConfigs (Flat 0)) Future = [0, 2232]"
  "cumulativeTax (runSimulation 100000 exampleReturns getDefaultConfigs (Flat 0)) Future
     = [0, 2232]"
proof -
  have "length exampleReturns = 2" by (simp add: exampleReturns_def)
  then show
    "portfolioValues (runSimulation 100000 exampleReturns getDefaultConfigs (Flat 0)) Future
       = [100000, 90000, 105768]"
    "annualTax (runSimulation 100000 exampleReturns getDefaultConfigs (Flat 0)) Future = [0, 2232]"
    "cumulativeTax (runSimulation 100000 exampleReturns getDefaultConfigs (Flat 0)) Future
       = [0, 2232]"
    by (simp_all add: run_tracks example_year2)
qed

lemma example_gain_income:
  "calcFutureIncome
     (returnAmount 90000 (annualFactorOf (exampleReturns ! 1))
        (depositOf (Flat 0) (year (exampleReturns ! 1))))
     (future getDefaultConfigs) = 16200"
  "valueAfterReturn 90000 (annualFactorOf (exampleReturns ! 1))
     (depositOf (Flat 0) (year (exampleReturns ! 1))) = 108000"
  "orDefault (taxRate (future getDefaultConfigs)) 36 = 36"
  by (simp_all add: example_defs)

lemma boundary_incomes:
  "calcFutureIncome
     (returnAmount 100000 (annualFactorOf (boundaryReturns ! 0))
        (depositOf (Flat 0) (year (boundaryReturns ! 0)))) c = - 10000"
  "calcFutureIncome
     (returnAmount 8000 (annualFactorOf (boundaryReturns ! 0))
        (depositOf (Flat 0) (year (boundaryReturns ! 0)))) c = - 800"
  "calcFutureIncome
     (returnAmount 5000 (annualFactorOf (boundaryReturns ! 0))
        (depositOf (Flat 0) (year (boundaryReturns ! 0)))) c = - 500"
  "calcFutureIncome
     (returnAmount 4000 (annualFactorOf (boundaryReturns ! 0))
        (depositOf (Flat 0) (year (boundaryReturns ! 0)))) c = - 400"
  by (simp_all add: boundaryReturns_def annualFactorOf_def valueAfterReturn_def returnAmount_def
        numberOr_def calcFutureIncome_def Let_def)

lemma small_gain_income:
  "calcFutureIncome
     (returnAmount 100000 (annualFactorOf (smallGainReturns ! 0))
        (depositOf (Flat 0) (year (smallGainReturns ! 0))))
     (future getDefaultConfigs) = 0"
  by (simp add: smallGainReturns_def example_defs)

lemma gain_year_values:
  "valueAfterReturn 100000 (annualFactorOf (gainReturns ! 0))
     (depositOf (Flat 0) (year (gainReturns ! 0))) = 120000"
  "returnAmount 100000 (annualFactorOf (gainReturns ! 0))
     (depositOf (Flat 0) (year (gainReturns ! 0))) = 20000"
  by (simp_all add: gainReturns_def example_defs)

lemma default_old_fields:
  "orDefault (exemption (old getDefaultConfigs)) 21139 = 21139"
  "orDefault (deemedReturn (old getDefaultConfigs)) 4 = 4"
  "orDefault (taxRate (old getDefaultConfigs)) 30 = 30"
  "getPartnerMultiplier (old getDefaultConfigs) = 1"
  by (simp_all add: example_defs)

lemma default_current_fields:
  "orDefault (allocSavings (current getDefaultConfigs)) 0 = 0"
  "orDefault (allocInvest (current getDefaultConfigs)) 100 = 100"
  "orDefault (allocDebt (current getDefaultConfigs)) 0 = 0"
  "orDefault (taxRate (current getDefaultConfigs)) 36 = 36"
  by (simp_all add: example_defs)

lemma default_current_tax:
  "calcCurrentSystem 100000 0 (current getDefaultConfigs) = 8778888 / 10000"
  by (simp add: calcCurrentSystem_def normalizeAllocations_def example_defs)

lemma default_current_reference:
  "referenceCurrentTax 100000 (current getDefaultConfigs) = 8778888 / 10000"
  by (simp add: referenceCurrentTax_def example_defs)

lemma schedule_example_amounts:
  "scheduleAmount 100 True 2020 (nat (2020 - 2020)) = 100"
  "scheduleAmount 100 True 2020 (nat (2021 - 2020)) = 1027 / 10"
  "scheduleAmount 100 True 2020 (nat (2022 - 2020)) = 11297 / 100"
  "roundCents 100 = 100"
  "roundCents (1027 / 10) = 1027 / 10"
  "roundCents (11297 / 100) = 11297 / 100"
  "roundCents (5 / 1000) = 1 / 100"
  by (simp_all add: eval_nat_numeral getCpiForYear_def cpiData_def roundCents_def)

section \<open>The claims\<close>

text \<open>
  C1.  In every run of \<open>runSimulation\<close>, for every regime and every year index \<open>i\<close>, the
  recorded annual tax lies between \<open>0\<close> and \<open>max 0\<close> of that year's value after return (the
  pre-tax, post-growth wealth, which the run turns into the next wealth entry by
  subtracting the tax), and the cumulative tax of the year is the cumulative tax of the
  year before (\<open>0\<close> before the first year) plus the annual tax; so the cumulative series is
  non-decreasing.  The three series have one entry per year (the wealth series one more).
\<close>

theorem annual_tax_bounded_and_cumulative_running_sum:
  fixes startCapital :: real and returns :: "yearReturn list" and cs :: configs
    and contribs :: contributions and sys :: system
  defines "res \<equiv> runSimulation startCapital returns cs contribs"
  shows "length (annualTax res sys) = length returns \<and>
         length (cumulativeTax res sys) = length returns \<and>
         length (portfolioValues res sys) = Suc (length returns) \<and>
         sorted (cumulativeTax res sys) \<and>
         (\<forall>i < length returns.
            0 \<le> annualTax res sys ! i \<and>
            annualTax res sys ! i \<le>
              max 0 (valueAfterReturn (portfolioValues res sys ! i) (annualFactorOf (returns ! i))
                       (depositOf contribs (year (returns ! i)))) \<and>
            portfolioValues res sys ! Suc i =
              valueAfterReturn (portfolioValues res sys ! i) (annualFactorOf (returns ! i))
                (depositOf contribs (year (returns ! i))) - annualTax res sys ! i \<and>
            cumulativeTax res sys ! i =
              (if i = 0 then 0 else cumulativeTax res sys ! (i - 1)) + annualTax res sys ! i)"
proof (intro conjI allI impI)
  show "length (annualTax res sys) = length returns"
    "length (cumulativeTax res sys) = length returns"
    "length (portfolioValues res sys) = Suc (length returns)"
    using simulateYears_lengths [of startCapital returns cs contribs "length returns" sys]
    by (simp_all add: res_def run_tracks)
  show "sorted (cumulativeTax res sys)"
    by (simp add: res_def run_tracks simulateYears_cumulative_sorted)
next
  fix i assume i: "i < length returns"
  note y = simulateYears_year [OF i, of startCapital returns cs contribs sys]
  show "0 \<le> annualTax res sys ! i"
    by (simp add: res_def run_tracks y(1) taxOfYear_bounds)
  show "annualTax res sys ! i \<le>
      max 0 (valueAfterReturn (portfolioValues res sys ! i) (annualFactorOf (returns ! i))
               (depositOf contribs (year (returns ! i))))"
    unfolding res_def run_tracks y(1) using taxOfYear_bounds by blast
  show "portfolioValues res sys ! Suc i =
      valueAfterReturn (portfolioValues res sys ! i) (annualFactorOf (returns ! i))
        (depositOf contribs (year (returns ! i))) - annualTax res sys ! i"
    unfolding res_def run_tracks y(1) y(2) by simp
  show "cumulativeTax res sys ! i =
      (if i = 0 then 0 else cumulativeTax res sys ! (i - 1)) + annualTax res sys ! i"
    unfolding res_def run_tracks y(1) y(3) by simp
qed

theorem annual_tax_bounded_and_cumulative_running_sum_witness:
  "1 < length exampleReturns \<and>
   annualTax (runSimulation 100000 exampleReturns getDefaultConfigs (Flat 0)) Future
     = [0, 2232] \<and>
   0 \<le> annualTax (runSimulation 100000 exampleReturns getDefaultConfigs (Flat 0)) Future ! 1 \<and>
   annualTax (runSimulation 100000 exampleReturns getDefaultConfigs (Flat 0)) Future ! 1
     \<le> max 0 (valueAfterReturn
                 (portfolioValues
                    (runSimulation 100000 exampleReturns getDefaultConfigs (Flat 0)) Future ! 1)
                 (annualFactorOf (exampleReturns ! 1))
                 (depositOf (Flat 0) (year (exampleReturns ! 1)))) \<and>
   cumulativeTax (runSimulation 100000 exampleReturns getDefaultConfigs (Flat 0)) Future ! 1
     = cumulativeTax (runSimulation 100000 exampleReturns getDefaultConfigs (Flat 0)) Future ! 0
       + annualTax (runSimulation 100000 exampleReturns getDefaultConfigs (Flat 0)) Future ! 1"
proof -
  have len: "1 < length exampleReturns" by (simp add: exampleReturns_def)
  from annual_tax_bounded_and_cumulative_running_sum
         [of 100000 exampleReturns getDefaultConfigs "Flat 0" Future] len
  have "0 \<le> annualTax (runSimulation 100000 exampleReturns getDefaultConfigs (Flat 0)) Future ! 1 \<and>
   annualTax (runSimulation 100000 exampleReturns getDefaultConfigs (Flat 0)) Future ! 1
     \<le> max 0 (valueAfterReturn
                 (portfolioValues
                    (runSimulation 100000 exampleReturns getDefaultConfigs (Flat 0)) Future ! 1)
                 (annualFactorOf (exampleReturns ! 1))
                 (depositOf (Flat 0) (year (exampleReturns ! 1)))) \<and>
   cumulativeTax (runSimulation 100000 exampleReturns getDefaultConfigs (Flat 0)) Future ! 1
     = cumulativeTax (runSimulation 100000 exampleReturns getDefaultConfigs (Flat 0)) Future ! 0
       + annualTax (runSimulation 100000 exampleReturns getDefaultConfigs (Flat 0)) Future ! 1"
    by simp
  with len example_run(2) show ?thesis by simp
qed

text \<open>
  C2 (amended).  In the Future regime, in every simulated year whose \<open>incomeBeforeSetoff\<close>
  (\<open>calcFutureIncome\<close> of the year's return amount) is negative, the recorded tax is \<open>0\<close>,
  and the absolute value of that income is added to the carried loss when it strictly
  exceeds the effective loss threshold times the multiplier; otherwise, in particular when
  it equals that product, the carried loss is unchanged.  The effective loss threshold is
  the configured \<open>lossThreshold\<close>, or \<open>500\<close> when that is \<open>0\<close> or absent; the multiplier is \<open>2\<close>
  when the configured \<open>partnerMultiplier\<close> is a number above \<open>1\<close> and \<open>1\<close> otherwise.  For a
  configured threshold other than \<open>0\<close> the effective threshold is the configured one, and
  for every \<open>partnerMultiplier\<close> but plus infinity the multiplier is the one of
  \<open>getPartnerMultiplier\<close>.
\<close>

theorem future_loss_year_banks_only_above_threshold:
  fixes startCapital :: real and returns :: "yearReturn list" and cs :: configs
    and contribs :: contributions and i :: nat
  defines "res \<equiv> runSimulation startCapital returns cs contribs"
  defines "carryBefore \<equiv>
             futureCarryForwardLoss (simulateYears startCapital returns cs contribs i)"
  defines "carryAfter \<equiv>
             futureCarryForwardLoss (simulateYears startCapital returns cs contribs (Suc i))"
  defines "incomeBeforeSetoff \<equiv>
             calcFutureIncome
               (returnAmount (portfolioValues res Future ! i) (annualFactorOf (returns ! i))
                  (depositOf contribs (year (returns ! i))))
               (future cs)"
  defines "effectiveThreshold \<equiv>
             (case lossThreshold (future cs) of
                None \<Rightarrow> 500
              | Some t \<Rightarrow> if t = 0 then 500 else t)"
  defines "multiplier \<equiv>
             (case partnerMultiplier (future cs) of
                Some (Fin x) \<Rightarrow> if 1 < x then 2 else 1
              | Some PosInf \<Rightarrow> 2
              | _ \<Rightarrow> 1)"
  assumes "i < length returns" and "incomeBeforeSetoff < 0"
  shows "annualTax res Future ! i = 0 \<and>
         (effectiveThreshold * multiplier < \<bar>incomeBeforeSetoff\<bar> \<longrightarrow>
            carryAfter = carryBefore + \<bar>incomeBeforeSetoff\<bar>) \<and>
         (\<bar>incomeBeforeSetoff\<bar> \<le> effectiveThreshold * multiplier \<longrightarrow>
            carryAfter = carryBefore) \<and>
         (\<forall>t. lossThreshold (future cs) = Some t \<and> t \<noteq> 0 \<longrightarrow> effectiveThreshold = t) \<and>
         (partnerMultiplier (future cs) \<noteq> Some PosInf \<longrightarrow>
            multiplier = getPartnerMultiplier (future cs))"
proof -
  let ?p = "portfolioValues res Future ! i"
  let ?af = "annualFactorOf (returns ! i)"
  let ?d = "depositOf contribs (year (returns ! i))"
  have thr: "numberOr (lossThreshold (future cs)) 500 * loopPartnerMultiplier (future cs)
      = effectiveThreshold * multiplier"
    unfolding effectiveThreshold_def multiplier_def by (rule lossThresholdOf_cases)
  have fc: "futureCase (future cs) carryBefore (returnAmount ?p ?af ?d) (valueAfterReturn ?p ?af ?d)
      = (0, if effectiveThreshold * multiplier < \<bar>incomeBeforeSetoff\<bar>
            then carryBefore + \<bar>incomeBeforeSetoff\<bar> else carryBefore)"
    using futureCase_loss [OF assms(8) [unfolded incomeBeforeSetoff_def], of carryBefore
        "valueAfterReturn ?p ?af ?d"]
    unfolding thr incomeBeforeSetoff_def .
  have tax: "annualTax res Future ! i = 0"
    using run_year_tax [OF assms(7), of startCapital cs contribs Future] fc
    by (simp add: res_def carryBefore_def taxOfYear_def)
  have carry: "carryAfter =
      (if effectiveThreshold * multiplier < \<bar>incomeBeforeSetoff\<bar>
       then carryBefore + \<bar>incomeBeforeSetoff\<bar> else carryBefore)"
    using run_year_carry [OF assms(7), of startCapital cs contribs] fc
    by (simp add: res_def carryBefore_def carryAfter_def)
  have conf: "\<forall>t. lossThreshold (future cs) = Some t \<and> t \<noteq> 0 \<longrightarrow> effectiveThreshold = t"
    by (simp add: effectiveThreshold_def)
  have mult: "partnerMultiplier (future cs) \<noteq> Some PosInf \<longrightarrow>
      multiplier = getPartnerMultiplier (future cs)"
    by (simp add: multiplier_def getPartnerMultiplier_cases split: option.splits jsnum.splits)
  show ?thesis using tax carry conf mult by simp
qed


theorem future_loss_year_banks_only_above_threshold_witness:
  "0 < length boundaryReturns \<and>
   calcFutureIncome
     (returnAmount
        (portfolioValues (runSimulation 5000 boundaryReturns getDefaultConfigs (Flat 0)) Future ! 0)
        (annualFactorOf (boundaryReturns ! 0)) (depositOf (Flat 0) (year (boundaryReturns ! 0))))
     (future getDefaultConfigs) = - 500 \<and>
   lossThreshold (future getDefaultConfigs) = Some 500 \<and>
   getPartnerMultiplier (future getDefaultConfigs) = 1 \<and>
   annualTax (runSimulation 5000 boundaryReturns getDefaultConfigs (Flat 0)) Future ! 0 = 0 \<and>
   futureCarryForwardLoss (simulateYears 5000 boundaryReturns getDefaultConfigs (Flat 0) (Suc 0))
     = futureCarryForwardLoss (simulateYears 5000 boundaryReturns getDefaultConfigs (Flat 0) 0) \<and>
   calcFutureIncome
     (returnAmount
        (portfolioValues (runSimulation 100000 boundaryReturns getDefaultConfigs (Flat 0)) Future ! 0)
        (annualFactorOf (boundaryReturns ! 0)) (depositOf (Flat 0) (year (boundaryReturns ! 0))))
     (future getDefaultConfigs) = - 10000 \<and>
   annualTax (runSimulation 100000 boundaryReturns getDefaultConfigs (Flat 0)) Future ! 0 = 0 \<and>
   futureCarryForwardLoss (simulateYears 100000 boundaryReturns getDefaultConfigs (Flat 0) (Suc 0))
     = futureCarryForwardLoss (simulateYears 100000 boundaryReturns getDefaultConfigs (Flat 0) 0) + 10000 \<and>
   calcFutureIncome
     (returnAmount
        (portfolioValues (runSimulation 8000 boundaryReturns partnerConfigs (Flat 0)) Future ! 0)
        (annualFactorOf (boundaryReturns ! 0)) (depositOf (Flat 0) (year (boundaryReturns ! 0))))
     (future partnerConfigs) = - 800 \<and>
   lossThreshold (future partnerConfigs) = Some 500 \<and>
   getPartnerMultiplier (future partnerConfigs) = 2 \<and>
   annualTax (runSimulation 8000 boundaryReturns partnerConfigs (Flat 0)) Future ! 0 = 0 \<and>
   futureCarryForwardLoss (simulateYears 8000 boundaryReturns partnerConfigs (Flat 0) (Suc 0))
     = futureCarryForwardLoss (simulateYears 8000 boundaryReturns partnerConfigs (Flat 0) 0) \<and>
   calcFutureIncome
     (returnAmount
        (portfolioValues (runSimulation 8000 boundaryReturns getDefaultConfigs (Flat 0)) Future ! 0)
        (annualFactorOf (boundaryReturns ! 0)) (depositOf (Flat 0) (year (boundaryReturns ! 0))))
     (future getDefaultConfigs) = - 800 \<and>
   annualTax (runSimulation 8000 boundaryReturns getDefaultConfigs (Flat 0)) Future ! 0 = 0 \<and>
   futureCarryForwardLoss (simulateYears 8000 boundaryReturns getDefaultConfigs (Flat 0) (Suc 0))
     = futureCarryForwardLoss (simulateYears 8000 boundaryReturns getDefaultConfigs (Flat 0) 0) + 800"
proof -
  have len: "0 < length boundaryReturns" by (simp add: boundaryReturns_def)
  note cfg = getDefaultConfigs_def emptyConfig_def partnerConfigs_def
  note t = future_loss_year_banks_only_above_threshold [OF len]
  from t [of 5000 getDefaultConfigs "Flat 0", unfolded run_start boundary_incomes]
  have a: "annualTax (runSimulation 5000 boundaryReturns getDefaultConfigs (Flat 0)) Future ! 0 = 0 \<and>
   futureCarryForwardLoss (simulateYears 5000 boundaryReturns getDefaultConfigs (Flat 0) (Suc 0))
     = futureCarryForwardLoss (simulateYears 5000 boundaryReturns getDefaultConfigs (Flat 0) 0)"
    by (simp add: cfg)
  from t [of 100000 getDefaultConfigs "Flat 0", unfolded run_start boundary_incomes]
  have b: "annualTax (runSimulation 100000 boundaryReturns getDefaultConfigs (Flat 0)) Future ! 0 = 0 \<and>
   futureCarryForwardLoss (simulateYears 100000 boundaryReturns getDefaultConfigs (Flat 0) (Suc 0))
     = futureCarryForwardLoss (simulateYears 100000 boundaryReturns getDefaultConfigs (Flat 0) 0) + 10000"
    by (simp add: cfg)
  from t [of 8000 partnerConfigs "Flat 0", unfolded run_start boundary_incomes]
  have c: "annualTax (runSimulation 8000 boundaryReturns partnerConfigs (Flat 0)) Future ! 0 = 0 \<and>
   futureCarryForwardLoss (simulateYears 8000 boundaryReturns partnerConfigs (Flat 0) (Suc 0))
     = futureCarryForwardLoss (simulateYears 8000 boundaryReturns partnerConfigs (Flat 0) 0)"
    by (simp add: cfg)
  from t [of 8000 getDefaultConfigs "Flat 0", unfolded run_start boundary_incomes]
  have d: "annualTax (runSimulation 8000 boundaryReturns getDefaultConfigs (Flat 0)) Future ! 0 = 0 \<and>
   futureCarryForwardLoss (simulateYears 8000 boundaryReturns getDefaultConfigs (Flat 0) (Suc 0))
     = futureCarryForwardLoss (simulateYears 8000 boundaryReturns getDefaultConfigs (Flat 0) 0) + 800"
    by (simp add: cfg)
  have pm: "getPartnerMultiplier (future getDefaultConfigs) = 1"
    "getPartnerMultiplier (future partnerConfigs) = 2"
    "lossThreshold (future getDefaultConfigs) = Some 500"
    "lossThreshold (future partnerConfigs) = Some 500"
    by (simp_all add: cfg getPartnerMultiplier_cases)
  show ?thesis
    unfolding run_start boundary_incomes using len a b c d pm by simp
qed

text \<open>
  C2 as stated fails for a configured loss threshold of \<open>0\<close>: with partner multiplier \<open>1\<close>
  a loss of 400 strictly exceeds \<open>0 * 1\<close>, yet the loop reads the threshold as 500 and the
  carried loss stays \<open>0\<close>.
\<close>

theorem zero_loss_threshold_counts_as_500:
  "lossThreshold (future zeroThresholdConfigs) = Some 0 \<and>
   getPartnerMultiplier (future zeroThresholdConfigs) = 1 \<and>
   calcFutureIncome
     (returnAmount
        (portfolioValues (runSimulation 4000 boundaryReturns zeroThresholdConfigs (Flat 0)) Future ! 0)
        (annualFactorOf (boundaryReturns ! 0)) (depositOf (Flat 0) (year (boundaryReturns ! 0))))
     (future zeroThresholdConfigs) = - 400 \<and>
   (0 :: real) * 1 < \<bar>- 400\<bar> \<and>
   annualTax (runSimulation 4000 boundaryReturns zeroThresholdConfigs (Flat 0)) Future ! 0 = 0 \<and>
   futureCarryForwardLoss (simulateYears 4000 boundaryReturns zeroThresholdConfigs (Flat 0) 0) = 0 \<and>
   futureCarryForwardLoss (simulateYears 4000 boundaryReturns zeroThresholdConfigs (Flat 0) (Suc 0)) = 0 \<and>
   futureCarryForwardLoss (simulateYears 4000 boundaryReturns zeroThresholdConfigs (Flat 0) (Suc 0))
     \<noteq> futureCarryForwardLoss (simulateYears 4000 boundaryReturns zeroThresholdConfigs (Flat 0) 0) + \<bar>- 400\<bar>"
proof -
  have len: "0 < length boundaryReturns" by (simp add: boundaryReturns_def)
  have c0: "futureCarryForwardLoss (simulateYears 4000 boundaryReturns zeroThresholdConfigs (Flat 0) 0) = 0"
    by (simp add: simulateYears_0 initialState_def)
  have p0: "portfolioValues (simulateYears 4000 boundaryReturns zeroThresholdConfigs (Flat 0) 0)
      Future ! 0 = 4000"
    by (simp add: simulateYears_0 initialState_def)
  have c1: "futureCarryForwardLoss (simulateYears 4000 boundaryReturns zeroThresholdConfigs (Flat 0) (Suc 0)) = 0"
    unfolding simulateYears_Suc yearStep_carry c0 p0 carryAfterYear_def
    by (simp add: boundary_incomes futureCase_def lossThresholdOf_def numberOr_def
          loopPartnerMultiplier_def Number_def greaterThanOne_def zeroThresholdConfigs_def
          getDefaultConfigs_def emptyConfig_def Let_def del: depositOf.simps)
  have tx: "annualTax (runSimulation 4000 boundaryReturns zeroThresholdConfigs (Flat 0)) Future ! 0 = 0"
    unfolding run_year_tax [OF len] c0 run_start taxOfYear_Future
    by (simp add: boundary_incomes futureCase_def Let_def del: depositOf.simps)
  have "lossThreshold (future zeroThresholdConfigs) = Some 0"
    "getPartnerMultiplier (future zeroThresholdConfigs) = 1"
    by (simp_all add: zeroThresholdConfigs_def getDefaultConfigs_def emptyConfig_def
          getPartnerMultiplier_cases)
  then show ?thesis
    unfolding run_start boundary_incomes using c0 c1 tx by simp
qed

text \<open>
  C3 (amended).  In the Future regime, in every simulated year whose \<open>incomeBeforeSetoff\<close>
  is positive, the carried loss is reduced by \<open>lossUsed = min carry incomeBeforeSetoff\<close> and
  the year's tax before the clamp is \<open>calcFutureSystem\<close> of the remainder, which is
  \<open>max 0 ((incomeBeforeSetoff - lossUsed) * taxRate / 100)\<close>: the bare product whenever the
  tax rate is not negative.  In every year whose \<open>incomeBeforeSetoff\<close> is \<open>0\<close> the tax is \<open>0\<close>
  and the carried loss is unchanged.
\<close>

theorem future_gain_year_sets_off_carried_loss:
  fixes startCapital :: real and returns :: "yearReturn list" and cs :: configs
    and contribs :: contributions and i :: nat
  defines "res \<equiv> runSimulation startCapital returns cs contribs"
  defines "carryBefore \<equiv>
             futureCarryForwardLoss (simulateYears startCapital returns cs contribs i)"
  defines "carryAfter \<equiv>
             futureCarryForwardLoss (simulateYears startCapital returns cs contribs (Suc i))"
  defines "prevValue \<equiv> portfolioValues res Future ! i"
  defines "retAmount \<equiv> returnAmount prevValue (annualFactorOf (returns ! i))
                          (depositOf contribs (year (returns ! i)))"
  defines "afterReturn \<equiv> valueAfterReturn prevValue (annualFactorOf (returns ! i))
                            (depositOf contribs (year (returns ! i)))"
  defines "incomeBeforeSetoff \<equiv> calcFutureIncome retAmount (future cs)"
  defines "lossUsed \<equiv> min carryBefore incomeBeforeSetoff"
  defines "rate \<equiv> orDefault (taxRate (future cs)) 36"
  assumes "i < length returns"
  shows "(0 < incomeBeforeSetoff \<longrightarrow>
            carryAfter = carryBefore - lossUsed \<and>
            fst (taxSwitch cs Future carryBefore prevValue retAmount afterReturn)
              = calcFutureSystem afterReturn (incomeBeforeSetoff - lossUsed) (future cs) \<and>
            calcFutureSystem afterReturn (incomeBeforeSetoff - lossUsed) (future cs)
              = max 0 ((incomeBeforeSetoff - lossUsed) * (rate / 100)) \<and>
            (0 \<le> rate \<longrightarrow>
               calcFutureSystem afterReturn (incomeBeforeSetoff - lossUsed) (future cs)
                 = (incomeBeforeSetoff - lossUsed) * (rate / 100)) \<and>
            annualTax res Future ! i
              = min (max 0 ((incomeBeforeSetoff - lossUsed) * (rate / 100))) (max 0 afterReturn)) \<and>
         (incomeBeforeSetoff = 0 \<longrightarrow> annualTax res Future ! i = 0 \<and> carryAfter = carryBefore)"
proof -
  have tax: "annualTax res Future ! i
      = min (fst (futureCase (future cs) carryBefore retAmount afterReturn)) (max 0 afterReturn)"
    using run_year_tax [OF assms(10), of startCapital cs contribs Future]
    by (simp add: res_def carryBefore_def prevValue_def retAmount_def afterReturn_def
          taxOfYear_Future)
  have carry: "carryAfter = snd (futureCase (future cs) carryBefore retAmount afterReturn)"
    using run_year_carry [OF assms(10), of startCapital cs contribs]
    by (simp add: res_def carryBefore_def carryAfter_def prevValue_def retAmount_def
          afterReturn_def)
  have rem: "0 \<le> incomeBeforeSetoff - lossUsed" by (simp add: lossUsed_def)
  have sys: "calcFutureSystem afterReturn (incomeBeforeSetoff - lossUsed) (future cs)
      = max 0 ((incomeBeforeSetoff - lossUsed) * (rate / 100))"
    unfolding rate_def using rem by (rule calcFutureSystem_eq)
  have pos: "0 \<le> rate \<Longrightarrow> 0 \<le> (incomeBeforeSetoff - lossUsed) * (rate / 100)"
    using rem by simp
  show ?thesis
  proof (intro conjI impI)
    assume g: "0 < incomeBeforeSetoff"
    then have fc: "futureCase (future cs) carryBefore retAmount afterReturn
        = (calcFutureSystem afterReturn (incomeBeforeSetoff - lossUsed) (future cs),
           carryBefore - lossUsed)"
      unfolding incomeBeforeSetoff_def lossUsed_def by (rule futureCase_gain)
    show "carryAfter = carryBefore - lossUsed" using carry fc by simp
    show "fst (taxSwitch cs Future carryBefore prevValue retAmount afterReturn)
              = calcFutureSystem afterReturn (incomeBeforeSetoff - lossUsed) (future cs)"
      using fc by simp
    show "annualTax res Future ! i
              = min (max 0 ((incomeBeforeSetoff - lossUsed) * (rate / 100))) (max 0 afterReturn)"
      using tax fc sys by simp
  next
    show "calcFutureSystem afterReturn (incomeBeforeSetoff - lossUsed) (future cs)
              = max 0 ((incomeBeforeSetoff - lossUsed) * (rate / 100))"
      by (rule sys)
  next
    assume "0 \<le> rate"
    then show "calcFutureSystem afterReturn (incomeBeforeSetoff - lossUsed) (future cs)
                 = (incomeBeforeSetoff - lossUsed) * (rate / 100)"
      using sys pos by simp
  next
    assume z: "incomeBeforeSetoff = 0"
    then have fc: "futureCase (future cs) carryBefore retAmount afterReturn = (0, carryBefore)"
      unfolding incomeBeforeSetoff_def by (rule futureCase_zero)
    show "annualTax res Future ! i = 0" using tax fc by simp
    show "carryAfter = carryBefore" using carry fc by simp
  qed
qed

theorem future_gain_year_sets_off_carried_loss_witness:
  "1 < length exampleReturns \<and>
   calcFutureIncome
     (returnAmount
        (portfolioValues (runSimulation 100000 exampleReturns getDefaultConfigs (Flat 0)) Future ! 1)
        (annualFactorOf (exampleReturns ! 1)) (depositOf (Flat 0) (year (exampleReturns ! 1))))
     (future getDefaultConfigs) = 16200 \<and>
   futureCarryForwardLoss (simulateYears 100000 exampleReturns getDefaultConfigs (Flat 0) 1)
     = 10000 \<and>
   futureCarryForwardLoss (simulateYears 100000 exampleReturns getDefaultConfigs (Flat 0) (Suc 1))
     = 10000 - min 10000 16200 \<and>
   annualTax (runSimulation 100000 exampleReturns getDefaultConfigs (Flat 0)) Future ! 1
     = (16200 - min 10000 16200) * (36 / 100) \<and>
   0 < length smallGainReturns \<and>
   calcFutureIncome
     (returnAmount
        (portfolioValues (runSimulation 100000 smallGainReturns getDefaultConfigs (Flat 0)) Future ! 0)
        (annualFactorOf (smallGainReturns ! 0)) (depositOf (Flat 0) (year (smallGainReturns ! 0))))
     (future getDefaultConfigs) = 0 \<and>
   annualTax (runSimulation 100000 smallGainReturns getDefaultConfigs (Flat 0)) Future ! 0 = 0 \<and>
   futureCarryForwardLoss (simulateYears 100000 smallGainReturns getDefaultConfigs (Flat 0) (Suc 0))
     = futureCarryForwardLoss (simulateYears 100000 smallGainReturns getDefaultConfigs (Flat 0) 0)"
proof -
  have len1: "1 < length exampleReturns" by (simp add: exampleReturns_def)
  have len2: "0 < length smallGainReturns" by (simp add: smallGainReturns_def)
  have p1: "portfolioValues (runSimulation 100000 exampleReturns getDefaultConfigs (Flat 0))
      Future ! 1 = 90000"
    by (simp add: example_run)
  from future_gain_year_sets_off_carried_loss
         [OF len1, of 100000 getDefaultConfigs "Flat 0",
          unfolded p1 example_gain_income example_year1(4)]
  have a: "futureCarryForwardLoss
        (simulateYears 100000 exampleReturns getDefaultConfigs (Flat 0) (Suc 1))
      = 10000 - min 10000 16200 \<and>
    annualTax (runSimulation 100000 exampleReturns getDefaultConfigs (Flat 0)) Future ! 1
      = (16200 - min 10000 16200) * (36 / 100)"
    by simp
  from future_gain_year_sets_off_carried_loss
         [OF len2, of 100000 getDefaultConfigs "Flat 0", unfolded run_start small_gain_income]
  have b: "annualTax (runSimulation 100000 smallGainReturns getDefaultConfigs (Flat 0)) Future ! 0
      = 0 \<and>
    futureCarryForwardLoss (simulateYears 100000 smallGainReturns getDefaultConfigs (Flat 0) (Suc 0))
      = futureCarryForwardLoss (simulateYears 100000 smallGainReturns getDefaultConfigs (Flat 0) 0)"
    by simp
  show ?thesis
    unfolding p1 run_start example_gain_income small_gain_income example_year1(4)
    using a b len1 len2 by simp
qed

text \<open>
  C3 as stated fails for a negative tax rate: with a rate of \<open>-36\<close>, a gain year with an
  income of 18200 and nothing carried is taxed \<open>0\<close>, not \<open>18200 * (-36) / 100 = -6552\<close>.
\<close>

theorem future_gain_tax_is_not_the_bare_product:
  "calcFutureIncome
     (returnAmount 100000 (annualFactorOf (gainReturns ! 0))
        (depositOf (Flat 0) (year (gainReturns ! 0))))
     (future negativeRateConfigs) = 18200 \<and>
   fst (taxSwitch negativeRateConfigs Future 0 100000
          (returnAmount 100000 (annualFactorOf (gainReturns ! 0))
             (depositOf (Flat 0) (year (gainReturns ! 0))))
          (valueAfterReturn 100000 (annualFactorOf (gainReturns ! 0))
             (depositOf (Flat 0) (year (gainReturns ! 0))))) = 0 \<and>
   (18200 - min 0 18200) * (orDefault (taxRate (future negativeRateConfigs)) 36 / 100)
     = - 6552 \<and>
   annualTax (runSimulation 100000 gainReturns negativeRateConfigs (Flat 0)) Future ! 0 = 0"
proof -
  have len: "0 < length gainReturns" by (simp add: gainReturns_def)
  have "taxOfYear negativeRateConfigs Future 0 100000 (annualFactorOf (gainReturns ! 0))
          (depositOf (Flat 0) (year (gainReturns ! 0))) = 0"
    by (simp add: gainReturns_def negativeRateConfigs_def example_defs)
  then have "annualTax (runSimulation 100000 gainReturns negativeRateConfigs (Flat 0)) Future ! 0
      = 0"
    using run_year_tax [OF len, of 100000 negativeRateConfigs "Flat 0" Future]
    by (simp add: run_start simulateYears_0 initialState_def)
  then show ?thesis
    by (simp add: gainReturns_def negativeRateConfigs_def example_defs)
qed

text \<open>
  C4.  \<open>calcFutureIncome\<close> returns a return that is not positive unchanged, and for a
  positive return the return less \<open>freeReturn * partnerMultiplier\<close>, floored at \<open>0\<close>.  With a
  start capital of 100000, one year at +20 percent, no contributions, and a Future
  configuration with free return 1800, tax rate 36 and partner multiplier 1 (whatever the
  other settings), the return amount is 20000, the income before set-off 18200 and the
  recorded tax 6552.
\<close>

theorem future_income_and_worked_example:
  fixes cs :: configs and y :: int
  defines "fut \<equiv> (future cs)\<lparr>freeReturn := Some 1800, taxRate := Some 36,
                                partnerMultiplier := Some (Fin 1)\<rparr>"
  defines "rs \<equiv> [\<lparr>year = y, return = 20\<rparr>]"
  shows "calcFutureIncome actualReturn c =
           (if actualReturn \<le> 0 then actualReturn
            else max 0 (actualReturn - orDefault (freeReturn c) 1800 * getPartnerMultiplier c)) \<and>
         returnAmount 100000 (annualFactorOf (rs ! 0)) (depositOf (Flat 0) (year (rs ! 0)))
           = 20000 \<and>
         calcFutureIncome 20000 fut = 18200 \<and>
         18200 * (36 / 100) = (6552 :: real) \<and>
         annualTax (runSimulation 100000 rs (cs\<lparr>future := fut\<rparr>) (Flat 0)) Future = [6552] \<and>
         portfolioValues (runSimulation 100000 rs (cs\<lparr>future := fut\<rparr>) (Flat 0)) Future
           = [100000, 113448]"
proof -
  have gen: "calcFutureIncome actualReturn c =
           (if actualReturn \<le> 0 then actualReturn
            else max 0 (actualReturn - orDefault (freeReturn c) 1800 * getPartnerMultiplier c))"
    by (simp add: calcFutureIncome_def Let_def)
  have pm: "getPartnerMultiplier fut = 1"
    by (simp add: fut_def getPartnerMultiplier_def Number_def isFinite_def greaterThanOne_def)
  have fr: "orDefault (freeReturn fut) 1800 = 1800" and tr: "orDefault (taxRate fut) 36 = 36"
    by (simp_all add: fut_def orDefault_def)
  have inc: "calcFutureIncome 20000 fut = 18200"
    by (simp add: calcFutureIncome_def Let_def pm fr)
  have ra: "returnAmount 100000 (annualFactorOf (rs ! 0)) (depositOf (Flat 0) (year (rs ! 0)))
      = 20000"
    and va: "valueAfterReturn 100000 (annualFactorOf (rs ! 0))
      (depositOf (Flat 0) (year (rs ! 0))) = 120000"
    by (simp_all add: rs_def returnAmount_def valueAfterReturn_def annualFactorOf_def
          numberOr_def)
  have tx: "taxOfYear (cs\<lparr>future := fut\<rparr>) Future 0 100000 (annualFactorOf (rs ! 0))
      (depositOf (Flat 0) (year (rs ! 0))) = 6552"
    unfolding taxOfYear_Future ra va
    by (simp add: futureCase_def inc Let_def calcFutureSystem_def tr)
  have one: "length rs = Suc 0" by (simp add: rs_def)
  have "annualTax (runSimulation 100000 rs (cs\<lparr>future := fut\<rparr>) (Flat 0)) Future = [6552]"
    "portfolioValues (runSimulation 100000 rs (cs\<lparr>future := fut\<rparr>) (Flat 0)) Future
           = [100000, 113448]"
    unfolding run_tracks one simulateYears_Suc yearStep_annualTax yearStep_portfolioValues
      simulateYears_0
    by (simp_all add: initialState_def tx va del: depositOf.simps)
  then show ?thesis using gen inc ra by simp
qed

text \<open>
  C5 (amended).  For every base wealth and configuration, \<open>calcCurrentSystem\<close> equals the
  step-by-step reference applied to the allocation weights floored at \<open>0\<close>, with the
  resulting tax floored at \<open>0\<close>.  It equals the reference as it stands whenever no weight
  is negative and the tax rate is not negative.
\<close>

theorem current_system_is_floored_reference:
  "calcCurrentSystem baseWealth r c = max 0 (referenceCurrentTax baseWealth (floorWeights c)) \<and>
   (0 \<le> orDefault (allocSavings c) 0 \<and> 0 \<le> orDefault (allocInvest c) 100 \<and>
    0 \<le> orDefault (allocDebt c) 0 \<and> 0 \<le> orDefault (taxRate c) 36 \<longrightarrow>
      calcCurrentSystem baseWealth r c = referenceCurrentTax baseWealth c)"
proof (intro conjI impI)
  show "calcCurrentSystem baseWealth r c = max 0 (referenceCurrentTax baseWealth (floorWeights c))"
    by (rule calcCurrentSystem_reference)
next
  assume a: "0 \<le> orDefault (allocSavings c) 0 \<and> 0 \<le> orDefault (allocInvest c) 100 \<and>
    0 \<le> orDefault (allocDebt c) 0 \<and> 0 \<le> orDefault (taxRate c) 36"
  then have "referenceCurrentTax baseWealth (floorWeights c) = referenceCurrentTax baseWealth c"
    by (simp add: referenceCurrentTax_nonneg_weights)
  moreover have "0 \<le> referenceCurrentTax baseWealth c"
    using a by (simp add: referenceCurrentTax_nonneg)
  ultimately show "calcCurrentSystem baseWealth r c = referenceCurrentTax baseWealth c"
    by (simp add: calcCurrentSystem_reference)
qed

theorem current_system_is_floored_reference_witness:
  "0 \<le> orDefault (allocSavings (current getDefaultConfigs)) 0 \<and>
   0 \<le> orDefault (allocInvest (current getDefaultConfigs)) 100 \<and>
   0 \<le> orDefault (allocDebt (current getDefaultConfigs)) 0 \<and>
   0 \<le> orDefault (taxRate (current getDefaultConfigs)) 36 \<and>
   calcCurrentSystem 100000 0 (current getDefaultConfigs)
     = referenceCurrentTax 100000 (current getDefaultConfigs) \<and>
   referenceCurrentTax 100000 (current getDefaultConfigs) = 8778888 / 10000"
  using current_system_is_floored_reference [of 100000 0 "current getDefaultConfigs"]
  by (simp add: default_current_fields default_current_reference)

text \<open>
  C5 as stated fails in two ways.  With a tax rate of \<open>-36\<close> the code returns \<open>0\<close> where the
  reference gives a negative tax; with a savings weight of \<open>-50\<close> beside an investment
  weight of \<open>100\<close> the code counts the negative weight as \<open>0\<close> where normalising the weights
  as they are gives shares \<open>-1\<close> and \<open>2\<close>.
\<close>

theorem current_system_differs_from_reference:
  "calcCurrentSystem 100000 0 (current negativeRateConfigs) = 0 \<and>
   referenceCurrentTax 100000 (current negativeRateConfigs) = - (8778888 / 10000) \<and>
   calcCurrentSystem 100000 0 (current negativeRateConfigs)
     \<noteq> referenceCurrentTax 100000 (current negativeRateConfigs) \<and>
   calcCurrentSystem 100000 0 negativeWeightConfig = 8778888 / 10000 \<and>
   referenceCurrentTax 100000 negativeWeightConfig = 10720 * (40643 / 100000) * (36 / 100) \<and>
   calcCurrentSystem 100000 0 negativeWeightConfig
     \<noteq> referenceCurrentTax 100000 negativeWeightConfig"
  by (simp add: calcCurrentSystem_def normalizeAllocations_def referenceCurrentTax_def
        negativeRateConfigs_def negativeWeightConfig_def example_defs)

text \<open>
  C6 (amended).  In every simulated year the Old and the Current regime compute their tax
  from \<open>prevValue\<close>, the wealth entry at the start of the year (before the year's return is
  applied); the return amount and the value after return do not enter it.  The Old
  regime's tax before the clamp is
  \<open>max 0 (max 0 (prevValue - exemption * partnerMultiplier) * (deemedReturn / 100) * (taxRate / 100))\<close>,
  which is the bare product whenever deemed return and tax rate do not differ in sign.
\<close>

theorem old_and_current_tax_from_start_of_year_wealth:
  fixes startCapital :: real and returns :: "yearReturn list" and cs :: configs
    and contribs :: contributions and i :: nat and carry anyReturn anyValue :: real
  defines "res \<equiv> runSimulation startCapital returns cs contribs"
  defines "prevOld \<equiv> portfolioValues res Old ! i"
  defines "prevCurrent \<equiv> portfolioValues res Current ! i"
  defines "product \<equiv>
             max 0 (prevOld - orDefault (exemption (old cs)) 21139 * getPartnerMultiplier (old cs))
             * (orDefault (deemedReturn (old cs)) 4 / 100)
             * (orDefault (taxRate (old cs)) 30 / 100)"
  assumes "i < length returns"
  shows "fst (taxSwitch cs Old carry prevOld anyReturn anyValue) = max 0 product \<and>
         (0 \<le> orDefault (deemedReturn (old cs)) 4 * orDefault (taxRate (old cs)) 30 \<longrightarrow>
            fst (taxSwitch cs Old carry prevOld anyReturn anyValue) = product) \<and>
         annualTax res Old ! i =
           min (max 0 product)
               (max 0 (valueAfterReturn prevOld (annualFactorOf (returns ! i))
                         (depositOf contribs (year (returns ! i))))) \<and>
         fst (taxSwitch cs Current carry prevCurrent anyReturn anyValue)
           = calcCurrentSystem prevCurrent 0 (current cs) \<and>
         annualTax res Current ! i =
           min (calcCurrentSystem prevCurrent 0 (current cs))
               (max 0 (valueAfterReturn prevCurrent (annualFactorOf (returns ! i))
                         (depositOf contribs (year (returns ! i)))))"
proof -
  have nn: "0 \<le> orDefault (deemedReturn (old cs)) 4 * orDefault (taxRate (old cs)) 30
      \<Longrightarrow> 0 \<le> product"
  proof -
    assume a: "0 \<le> orDefault (deemedReturn (old cs)) 4 * orDefault (taxRate (old cs)) 30"
    have "product =
        max 0 (prevOld - orDefault (exemption (old cs)) 21139 * getPartnerMultiplier (old cs))
        * ((orDefault (deemedReturn (old cs)) 4 * orDefault (taxRate (old cs)) 30) / 10000)"
      by (simp add: product_def)
    also have "0 \<le> \<dots>" using a by (intro mult_nonneg_nonneg) simp_all
    finally show "0 \<le> product" .
  qed
  have old: "fst (taxSwitch cs Old carry prevOld anyReturn anyValue) = max 0 product"
    by (simp add: calcOldSystem_eq product_def)
  have "annualTax res Old ! i =
           min (max 0 product)
               (max 0 (valueAfterReturn prevOld (annualFactorOf (returns ! i))
                         (depositOf contribs (year (returns ! i)))))"
    using run_year_tax [OF assms(5), of startCapital cs contribs Old]
    by (simp add: res_def prevOld_def taxOfYear_def calcOldSystem_eq product_def)
  moreover have "annualTax res Current ! i =
           min (calcCurrentSystem prevCurrent 0 (current cs))
               (max 0 (valueAfterReturn prevCurrent (annualFactorOf (returns ! i))
                         (depositOf contribs (year (returns ! i)))))"
    using run_year_tax [OF assms(5), of startCapital cs contribs Current]
    by (simp add: res_def prevCurrent_def taxOfYear_Current)
  moreover have "fst (taxSwitch cs Current carry prevCurrent anyReturn anyValue)
           = calcCurrentSystem prevCurrent 0 (current cs)"
    using calcCurrentSystem_ignores_return [of prevCurrent anyReturn "current cs" 0] by simp
  ultimately show ?thesis using old nn by simp
qed

theorem old_and_current_tax_from_start_of_year_wealth_witness:
  "0 < length gainReturns \<and>
   0 \<le> orDefault (deemedReturn (old getDefaultConfigs)) 4
        * orDefault (taxRate (old getDefaultConfigs)) 30 \<and>
   portfolioValues (runSimulation 100000 gainReturns getDefaultConfigs (Flat 0)) Old ! 0
     = 100000 \<and>
   fst (taxSwitch getDefaultConfigs Old 0 100000 20000 120000)
     = (100000 - 21139 * 1) * (4 / 100) * (30 / 100) \<and>
   annualTax (runSimulation 100000 gainReturns getDefaultConfigs (Flat 0)) Old ! 0
     = 946332 / 1000 \<and>
   annualTax (runSimulation 100000 gainReturns getDefaultConfigs (Flat 0)) Current ! 0
     = 8778888 / 10000"
proof -
  have len: "0 < length gainReturns" by (simp add: gainReturns_def)
  from old_and_current_tax_from_start_of_year_wealth
         [OF len, of getDefaultConfigs 0 100000 "Flat 0" 20000 120000,
          unfolded run_start gain_year_values default_old_fields default_current_tax]
  show ?thesis
    unfolding run_start default_old_fields using len by simp
qed

text \<open>
  C6 as stated fails for a negative tax rate: with the default Old configuration and a tax
  rate of \<open>-30\<close>, a start-of-year wealth of 100000 is taxed \<open>0\<close>, not
  \<open>(100000 - 21139) * 4 / 100 * (-30) / 100 = -946.332\<close>.
\<close>

theorem old_tax_is_not_the_bare_product:
  "fst (taxSwitch negativeRateConfigs Old 0 100000 20000 120000) = 0 \<and>
   max 0 (100000 - orDefault (exemption (old negativeRateConfigs)) 21139
                     * getPartnerMultiplier (old negativeRateConfigs))
     * (orDefault (deemedReturn (old negativeRateConfigs)) 4 / 100)
     * (orDefault (taxRate (old negativeRateConfigs)) 30 / 100) = - (946332 / 1000) \<and>
   annualTax (runSimulation 100000 gainReturns negativeRateConfigs (Flat 0)) Old ! 0 = 0"
proof -
  have len: "0 < length gainReturns" by (simp add: gainReturns_def)
  have "taxOfYear negativeRateConfigs Old 0 100000 (annualFactorOf (gainReturns ! 0))
          (depositOf (Flat 0) (year (gainReturns ! 0))) = 0"
    by (simp add: gainReturns_def negativeRateConfigs_def calcOldSystem_def example_defs)
  then have "annualTax (runSimulation 100000 gainReturns negativeRateConfigs (Flat 0)) Old ! 0 = 0"
    using run_year_tax [OF len, of 100000 negativeRateConfigs "Flat 0" Old]
    by (simp add: run_start simulateYears_0 initialState_def)
  then show ?thesis
    by (simp add: negativeRateConfigs_def calcOldSystem_def example_defs)
qed

text \<open>
  C7.  For every base amount, year range and indexation flag, the schedule that
  \<open>buildContributionsByYear\<close> returns holds exactly the years of the range, and the entry of
  a year is the year's amount rounded to two decimals, where the amount of the first year
  is the base amount, and the amount of each later year is the amount of the year before,
  multiplied by \<open>1 + getCpiForYear year / 100\<close> when indexation is enabled and unchanged
  when it is not.  A year that the CPI table does not hold has rate \<open>0\<close>, so a range whose
  later years are all missing gives the flat schedule.
\<close>

theorem contribution_schedule_follows_indexation:
  fixes baseAmount :: real and startYear endYear :: int and cpiEnabled :: bool
  defines "schedule \<equiv> buildContributionsByYear baseAmount startYear endYear cpiEnabled"
  shows "(\<forall>y. startYear \<le> y \<and> y \<le> endYear \<longrightarrow>
            schedule y = Some (roundCents
              (scheduleAmount baseAmount cpiEnabled startYear (nat (y - startYear))))) \<and>
         (\<forall>y. \<not> (startYear \<le> y \<and> y \<le> endYear) \<longrightarrow> schedule y = None) \<and>
         (startYear \<le> endYear \<longrightarrow> schedule startYear = Some (roundCents baseAmount)) \<and>
         (\<not> cpiEnabled \<longrightarrow>
            (\<forall>y. startYear \<le> y \<and> y \<le> endYear \<longrightarrow> schedule y = Some (roundCents baseAmount))) \<and>
         (\<forall>y. map_of cpiData y = None \<longrightarrow> getCpiForYear y = 0) \<and>
         ((\<forall>y. startYear < y \<and> y \<le> endYear \<longrightarrow> map_of cpiData y = None) \<longrightarrow>
            (\<forall>y. startYear \<le> y \<and> y \<le> endYear \<longrightarrow> schedule y = Some (roundCents baseAmount))) \<and>
         (\<forall>y v. schedule y = Some v \<longrightarrow> (\<exists>k::int. v = of_int k / 100))"
proof (intro conjI allI impI)
  fix y assume "startYear \<le> y \<and> y \<le> endYear"
  then show "schedule y = Some (roundCents
              (scheduleAmount baseAmount cpiEnabled startYear (nat (y - startYear))))"
    by (simp add: schedule_def schedule_lookup)
next
  fix y assume "\<not> (startYear \<le> y \<and> y \<le> endYear)"
  then show "schedule y = None" by (simp add: schedule_def schedule_lookup)
next
  assume "startYear \<le> endYear"
  then show "schedule startYear = Some (roundCents baseAmount)"
    by (simp add: schedule_def schedule_lookup)
next
  fix y assume "\<not> cpiEnabled" and "startYear \<le> y \<and> y \<le> endYear"
  then show "schedule y = Some (roundCents baseAmount)"
    by (simp add: schedule_def schedule_lookup scheduleAmount_disabled)
next
  fix y assume "map_of cpiData y = None"
  then show "getCpiForYear y = 0" by (rule getCpiForYear_missing)
next
  fix y
  assume missing: "\<forall>y. startYear < y \<and> y \<le> endYear \<longrightarrow> map_of cpiData y = None"
    and y: "startYear \<le> y \<and> y \<le> endYear"
  have "scheduleAmount baseAmount cpiEnabled startYear (nat (y - startYear)) = baseAmount"
    using missing y by (intro scheduleAmount_missing) auto
  then show "schedule y = Some (roundCents baseAmount)"
    using y by (simp add: schedule_def schedule_lookup)
next
  fix y v assume "schedule y = Some v"
  then have "v = roundCents
      (scheduleAmount baseAmount cpiEnabled startYear (nat (y - startYear)))"
    by (simp add: schedule_def schedule_lookup split: if_splits)
  then show "\<exists>k::int. v = of_int k / 100" using roundCents_cents by simp
qed

theorem contribution_schedule_follows_indexation_witness:
  "buildContributionsByYear 100 2020 2022 True 2020 = Some 100 \<and>
   buildContributionsByYear 100 2020 2022 True 2021 = Some (1027 / 10) \<and>
   buildContributionsByYear 100 2020 2022 True 2022 = Some (11297 / 100) \<and>
   buildContributionsByYear 100 2020 2022 True 2023 = None \<and>
   buildContributionsByYear 100 2020 2022 False 2022 = Some 100 \<and>
   map_of cpiData 2027 = None \<and> getCpiForYear 2027 = 0 \<and>
   buildContributionsByYear 100 2026 2027 True 2027 = Some 100 \<and>
   buildContributionsByYear (5 / 1000) 2020 2022 False 2020 = Some (1 / 100)"
proof -
  have m: "\<forall>y::int. 2026 < y \<and> y \<le> 2027 \<longrightarrow> map_of cpiData y = None"
  proof (intro allI impI)
    fix y :: int assume "2026 < y \<and> y \<le> 2027"
    then have "y = 2027" by simp
    then show "map_of cpiData y = None" by (simp add: cpiData_def)
  qed
  note t = contribution_schedule_follows_indexation
  note inRange = t [THEN conjunct1, rule_format]
  note outside = t [THEN conjunct2, THEN conjunct1, rule_format]
  note first = t [THEN conjunct2, THEN conjunct2, THEN conjunct1, rule_format]
  note disabled = t [THEN conjunct2, THEN conjunct2, THEN conjunct2, THEN conjunct1, rule_format]
  note lookup = t [THEN conjunct2, THEN conjunct2, THEN conjunct2, THEN conjunct2,
                   THEN conjunct1, rule_format]
  note flat = t [THEN conjunct2, THEN conjunct2, THEN conjunct2, THEN conjunct2,
                 THEN conjunct2, THEN conjunct1, rule_format]
  have "buildContributionsByYear 100 2020 2022 True 2020 = Some 100"
    by (rule inRange [of 2020 2020 2022 100 True, unfolded schedule_example_amounts]) simp
  moreover have "buildContributionsByYear 100 2020 2022 True 2021 = Some (1027 / 10)"
    by (rule inRange [of 2020 2021 2022 100 True, unfolded schedule_example_amounts]) simp
  moreover have "buildContributionsByYear 100 2020 2022 True 2022 = Some (11297 / 100)"
    by (rule inRange [of 2020 2022 2022 100 True, unfolded schedule_example_amounts]) simp
  moreover have "buildContributionsByYear 100 2020 2022 True 2023 = None"
    by (rule outside) simp
  moreover have "buildContributionsByYear 100 2020 2022 False 2022 = Some 100"
    by (rule disabled [of False 2020 2022 2022 100, unfolded schedule_example_amounts]) simp_all
  moreover have n: "map_of cpiData 2027 = None" by (simp add: cpiData_def)
  moreover have "getCpiForYear 2027 = 0" using n by (rule lookup)
  moreover have "buildContributionsByYear 100 2026 2027 True 2027 = Some 100"
    by (rule flat [of 2026 2027 2027 100 True, unfolded schedule_example_amounts])
       (use m in simp_all)
  moreover have "buildContributionsByYear (5 / 1000) 2020 2022 False 2020 = Some (1 / 100)"
    by (rule first [of 2020 2022 "5 / 1000" False, unfolded schedule_example_amounts]) simp
  ultimately show ?thesis by simp
qed

text \<open>
  C8 (amended).  On an empty return series \<open>runSimulation\<close> returns, for every regime, a
  wealth series that holds the start capital alone and empty annual-tax and
  cumulative-tax series; the labels are the single start label.
\<close>

theorem empty_returns_give_start_capital_only:
  "runSimulation startCapital [] cs contribs =
     \<lparr>portfolioValues = (\<lambda>sys. [startCapital]),
      annualTax = (\<lambda>sys. []),
      cumulativeTax = (\<lambda>sys. []),
      labels = [StartLabel],
      taxLabels = [],
      resultSystems = [NoTax, Old, Current, Future]\<rparr>"
  by (simp add: runSimulation_def simulateYears_def initialState_def systems_def)

text \<open>
  C8 as stated fails: the wealth series of an empty run is not empty, it holds the start
  capital.
\<close>

theorem empty_returns_wealth_series_not_empty:
  "portfolioValues (runSimulation 1000 [] getDefaultConfigs (Flat 0)) NoTax = [1000] \<and>
   portfolioValues (runSimulation 1000 [] getDefaultConfigs (Flat 0)) NoTax \<noteq> []"
  by (simp add: runSimulation_def simulateYears_def initialState_def)

text \<open>
  C9.  The carried loss of the Future regime starts at \<open>0\<close> and is at least \<open>0\<close> after
  every year step of a run: a year with a negative income before set-off leaves it or adds
  the absolute value of that income, and any other year subtracts
  \<open>min carry incomeBeforeSetoff\<close>, which is at most the carried loss.
\<close>

theorem carry_forward_loss_nonneg:
  fixes startCapital :: real and returns :: "yearReturn list" and cs :: configs
    and contribs :: contributions and i k :: nat
  defines "carry \<equiv> (\<lambda>n. futureCarryForwardLoss (simulateYears startCapital returns cs contribs n))"
  defines "incomeBeforeSetoff \<equiv>
             calcFutureIncome
               (returnAmount
                  (portfolioValues (runSimulation startCapital returns cs contribs) Future ! i)
                  (annualFactorOf (returns ! i)) (depositOf contribs (year (returns ! i))))
               (future cs)"
  shows "carry 0 = 0 \<and>
         (k \<le> length returns \<longrightarrow> 0 \<le> carry k) \<and>
         (i < length returns \<longrightarrow>
            (incomeBeforeSetoff < 0 \<longrightarrow>
               carry (Suc i) = carry i \<or> carry (Suc i) = carry i + \<bar>incomeBeforeSetoff\<bar>) \<and>
            (0 \<le> incomeBeforeSetoff \<longrightarrow>
               carry (Suc i) = carry i - min (carry i) incomeBeforeSetoff))"
proof (intro conjI impI)
  show "carry 0 = 0"
    by (simp add: carry_def simulateYears_0 initialState_def)
next
  show nn: "0 \<le> carry k" for k
    unfolding carry_def
  proof (induction k)
    case 0
    show ?case by (simp add: simulateYears_0 initialState_def)
  next
    case (Suc k)
    then show ?case
      unfolding simulateYears_carry by (rule futureCase_carry_nonneg)
  qed
  assume i: "i < length returns"
  note step = run_year_carry [OF i, of startCapital cs contribs]
  {
    assume "incomeBeforeSetoff < 0"
    then show "carry (Suc i) = carry i \<or> carry (Suc i) = carry i + \<bar>incomeBeforeSetoff\<bar>"
      unfolding carry_def step incomeBeforeSetoff_def by (simp add: futureCase_loss)
  }
  {
    assume g: "0 \<le> incomeBeforeSetoff"
    show "carry (Suc i) = carry i - min (carry i) incomeBeforeSetoff"
    proof (cases "incomeBeforeSetoff = 0")
      case True
      then have "min (carry i) incomeBeforeSetoff = 0" using nn [of i] by simp
      then show ?thesis
        using True unfolding carry_def step incomeBeforeSetoff_def
        by (simp add: futureCase_zero)
    next
      case False
      with g have "0 < incomeBeforeSetoff" by simp
      then show ?thesis
        unfolding carry_def step incomeBeforeSetoff_def by (simp add: futureCase_gain)
    qed
  }
qed

theorem carry_forward_loss_nonneg_witness:
  "1 \<le> length exampleReturns \<and> 1 < length exampleReturns \<and>
   futureCarryForwardLoss (simulateYears 100000 exampleReturns getDefaultConfigs (Flat 0) 0) = 0 \<and>
   futureCarryForwardLoss (simulateYears 100000 exampleReturns getDefaultConfigs (Flat 0) 1)
     = 10000 \<and>
   0 \<le> futureCarryForwardLoss (simulateYears 100000 exampleReturns getDefaultConfigs (Flat 0) 1) \<and>
   0 \<le> calcFutureIncome
          (returnAmount
             (portfolioValues (runSimulation 100000 exampleReturns getDefaultConfigs (Flat 0))
                Future ! 1)
             (annualFactorOf (exampleReturns ! 1)) (depositOf (Flat 0) (year (exampleReturns ! 1))))
          (future getDefaultConfigs) \<and>
   futureCarryForwardLoss (simulateYears 100000 exampleReturns getDefaultConfigs (Flat 0) (Suc 1))
     = 10000 - min 10000 16200"
proof -
  have len: "1 \<le> length exampleReturns" "1 < length exampleReturns"
    by (simp_all add: exampleReturns_def)
  have p1: "portfolioValues (runSimulation 100000 exampleReturns getDefaultConfigs (Flat 0))
      Future ! 1 = 90000"
    by (simp add: example_run)
  from carry_forward_loss_nonneg
         [of 100000 exampleReturns getDefaultConfigs "Flat 0" 1 1,
          unfolded p1 example_gain_income example_year1(4)]
  show ?thesis
    unfolding p1 example_gain_income example_year1(4) using len by simp
qed

text \<open>
  C10.  For every configuration the effective partner multiplier of \<open>calcOldSystem\<close>,
  \<open>calcCurrentSystem\<close> and \<open>calcFutureIncome\<close> is \<open>2\<close> when the \<open>partnerMultiplier\<close> property
  is a finite number greater than \<open>1\<close>, and \<open>1\<close> for every other value (absent, \<open>NaN\<close>,
  infinite, or at most \<open>1\<close>): in the first case each of the three calculators returns what
  it returns with the property set to \<open>2\<close>, in the second what it returns with the
  property set to \<open>1\<close>.
\<close>

theorem partner_multiplier_is_two_or_one:
  fixes c :: config
  defines "finiteAboveOne \<equiv>
             (case partnerMultiplier c of Some (Fin x) \<Rightarrow> 1 < x | _ \<Rightarrow> False)"
  defines "canonical \<equiv> c\<lparr>partnerMultiplier := Some (Fin (if finiteAboveOne then 2 else 1))\<rparr>"
  shows "getPartnerMultiplier c = (if finiteAboveOne then 2 else 1) \<and>
         calcOldSystem w r c = calcOldSystem w r canonical \<and>
         calcCurrentSystem w r c = calcCurrentSystem w r canonical \<and>
         calcFutureIncome r c = calcFutureIncome r canonical \<and>
         calcOldSystem w r c =
           max 0 (max 0 (w - orDefault (exemption c) 21139 * (if finiteAboveOne then 2 else 1))
                  * (orDefault (deemedReturn c) 4 / 100) * (orDefault (taxRate c) 30 / 100)) \<and>
         calcFutureIncome r c =
           (if r \<le> 0 then r
            else max 0 (r - orDefault (freeReturn c) 1800 * (if finiteAboveOne then 2 else 1)))"
proof -
  have eff: "getPartnerMultiplier c = (if finiteAboveOne then 2 else 1)"
    unfolding finiteAboveOne_def getPartnerMultiplier_cases
    by (auto split: option.splits jsnum.splits)
  have same: "getPartnerMultiplier c = getPartnerMultiplier canonical"
    unfolding eff canonical_def getPartnerMultiplier_update by simp
  note dep = calculators_depend_on_effective_multiplier
                [OF same [unfolded canonical_def], folded canonical_def]
  have old: "calcOldSystem w r c =
           max 0 (max 0 (w - orDefault (exemption c) 21139 * (if finiteAboveOne then 2 else 1))
                  * (orDefault (deemedReturn c) 4 / 100) * (orDefault (taxRate c) 30 / 100))"
    unfolding eff [symmetric] by (simp add: calcOldSystem_def Let_def)
  have fut: "calcFutureIncome r c =
           (if r \<le> 0 then r
            else max 0 (r - orDefault (freeReturn c) 1800 * (if finiteAboveOne then 2 else 1)))"
    unfolding eff [symmetric] by (simp add: calcFutureIncome_def Let_def)
  show ?thesis using eff dep old fut by blast
qed

theorem partner_multiplier_is_two_or_one_witness:
  "getPartnerMultiplier (emptyConfig\<lparr>partnerMultiplier := Some (Fin (3 / 2))\<rparr>) = 2 \<and>
   calcOldSystem 100000 0 (emptyConfig\<lparr>partnerMultiplier := Some (Fin (3 / 2))\<rparr>)
     = calcOldSystem 100000 0 (emptyConfig\<lparr>partnerMultiplier := Some (Fin 2)\<rparr>) \<and>
   calcFutureIncome 20000 (emptyConfig\<lparr>partnerMultiplier := Some (Fin (3 / 2))\<rparr>)
     = 20000 - 1800 * 2 \<and>
   getPartnerMultiplier (emptyConfig\<lparr>partnerMultiplier := Some (Fin 1)\<rparr>) = 1 \<and>
   getPartnerMultiplier (emptyConfig\<lparr>partnerMultiplier := Some (Fin 0)\<rparr>) = 1 \<and>
   getPartnerMultiplier (emptyConfig\<lparr>partnerMultiplier := Some (Fin (- 5))\<rparr>) = 1 \<and>
   calcFutureIncome 20000 (emptyConfig\<lparr>partnerMultiplier := Some (Fin (- 5))\<rparr>)
     = 20000 - 1800 * 1 \<and>
   getPartnerMultiplier (emptyConfig\<lparr>partnerMultiplier := Some NaN\<rparr>) = 1 \<and>
   getPartnerMultiplier (emptyConfig\<lparr>partnerMultiplier := Some PosInf\<rparr>) = 1 \<and>
   getPartnerMultiplier (emptyConfig\<lparr>partnerMultiplier := Some NegInf\<rparr>) = 1 \<and>
   getPartnerMultiplier (emptyConfig\<lparr>partnerMultiplier := None\<rparr>) = 1"
  using
    partner_multiplier_is_two_or_one
      [of "emptyConfig\<lparr>partnerMultiplier := Some (Fin (3 / 2))\<rparr>" 100000 0]
    partner_multiplier_is_two_or_one
      [of "emptyConfig\<lparr>partnerMultiplier := Some (Fin (3 / 2))\<rparr>" 100000 20000]
    partner_multiplier_is_two_or_one [of "emptyConfig\<lparr>partnerMultiplier := Some (Fin 1)\<rparr>"]
    partner_multiplier_is_two_or_one [of "emptyConfig\<lparr>partnerMultiplier := Some (Fin 0)\<rparr>"]
    partner_multiplier_is_two_or_one
      [of "emptyConfig\<lparr>partnerMultiplier := Some (Fin (- 5))\<rparr>" 0 20000]
    partner_multiplier_is_two_or_one [of "emptyConfig\<lparr>partnerMultiplier := Some NaN\<rparr>"]
    partner_multiplier_is_two_or_one [of "emptyConfig\<lparr>partnerMultiplier := Some PosInf\<rparr>"]
    partner_multiplier_is_two_or_one [of "emptyConfig\<lparr>partnerMultiplier := Some NegInf\<rparr>"]
    partner_multiplier_is_two_or_one [of "emptyConfig\<lparr>partnerMultiplier := None\<rparr>"]
  by (simp add: emptyConfig_def orDefault_def)

end
